theory Spec2Isabelle
  imports Main
begin

text \<open>
  A shallow embedding of the offline-first layer of the client: the Operation Queue and the
  Sync Engine (\<^verbatim>\<open>OperationQueue\<close>, \<^verbatim>\<open>SyncService\<close>), the upload hook
  (\<^verbatim>\<open>useStorage\<close>) and the cached reads of \<^verbatim>\<open>AuthService\<close>. Asynchronous methods
  run one after the other on a single thread; each is a function from the state of the world
  before the call to its result and the state after it. A thrown error is a value of the
  result. The remote services are parameters: functions from a hidden remote state and a
  request to an answer and the next remote state. The operations of the local store are
  taken to succeed.
\<close>

section \<open>Data model of the sync layer\<close>

text \<open>
  A remote record is a JSON object; it is modelled as the list of its fields. Errors are
  values: the message of the thrown object.
\<close>

type_synonym row = "(string \<times> string) list"
type_synonym error = string

datatype operation_type = Create | Update | Delete

text \<open>
  \<^verbatim>\<open>PendingOperation\<close> (the type lives in \<^verbatim>\<open>types\<close>, its fields are the ones
  \<^verbatim>\<open>OperationQueue.enqueue\<close> and \<^verbatim>\<open>SyncService.syncToRemote\<close> read and write).
\<close>

record PendingOperation =
  op_id :: string
  op_type :: operation_type
  op_table :: string
  op_data :: row
  timestamp :: int
  retryCount :: nat

text \<open>
  What the caller of \<^verbatim>\<open>enqueue\<close> passes. The parameter type
  \<^verbatim>\<open>Omit<PendingOperation, 'id' | 'timestamp' | 'retryCount'>\<close> names the fields type,
  table and data; an object that also carries an id, a timestamp or a retryCount (a stored
  \<^verbatim>\<open>PendingOperation\<close>, say) is assignable to it, so these three are optional here.
\<close>

record intent =
  in_id :: "string option"
  in_type :: operation_type
  in_table :: string
  in_data :: row
  in_timestamp :: "int option"
  in_retryCount :: "nat option"

section \<open>The pending-operations region of the Local Store\<close>

text \<open>
  Modelled from the spec: the class \<^verbatim>\<open>IndexedDBStorage\<close> is not among the sources. The
  spec describes a persistent key/record store whose \<^verbatim>\<open>pending_operations\<close> region is
  keyed by the operation id; the region is the list of the stored operations.
  \<^verbatim>\<open>addPendingOperation\<close> persists the operation.
\<close>

definition addPendingOperation ::
  "PendingOperation \<Rightarrow> PendingOperation list \<Rightarrow> PendingOperation list" where
  "addPendingOperation operation ops = ops @ [operation]"

text \<open>
  Modelled from the spec: \<^verbatim>\<open>deletePendingOperation(id)\<close> of the absent
  \<^verbatim>\<open>IndexedDBStorage\<close> deletes the operation stored under that id and is idempotent if
  it is already absent.
\<close>

definition deletePendingOperation ::
  "string \<Rightarrow> PendingOperation list \<Rightarrow> PendingOperation list" where
  "deletePendingOperation operationId ops = filter (\<lambda>p. op_id p \<noteq> operationId) ops"

text \<open>
  Modelled from the spec: \<^verbatim>\<open>getPendingOperationsOrderedByTimestamp()\<close> of the absent
  \<^verbatim>\<open>IndexedDBStorage\<close> reads all pending operations ordered by timestamp, ascending.
\<close>

definition getPendingOperationsOrderedByTimestamp ::
  "PendingOperation list \<Rightarrow> PendingOperation list" where
  "getPendingOperationsOrderedByTimestamp ops = sort_key timestamp ops"

section \<open>OperationQueue\<close>

text \<open>
  \<^verbatim>\<open>enqueue\<close> calls \<^verbatim>\<open>uuidv4()\<close> and \<^verbatim>\<open>Date.now()\<close>; their results are
  the arguments \<open>uuid\<close> and \<open>now\<close>. The object literal
  \<^verbatim>\<open>{ id: uuidv4(), ...operation, timestamp: Date.now(), retryCount: 0 }\<close> puts
  \<^verbatim>\<open>id\<close> before the spread argument and \<^verbatim>\<open>timestamp\<close> and \<^verbatim>\<open>retryCount\<close>
  after it: an id carried by the argument replaces the uuid, while a carried timestamp or
  retryCount is replaced by the clock value and by 0.
\<close>

definition queuedOperation :: "string \<Rightarrow> int \<Rightarrow> intent \<Rightarrow> PendingOperation" where
  "queuedOperation uuid now operation =
     \<lparr>op_id = (case in_id operation of None \<Rightarrow> uuid | Some carried \<Rightarrow> carried),
      op_type = in_type operation, op_table = in_table operation,
      op_data = in_data operation, timestamp = now, retryCount = 0\<rparr>"

definition enqueue ::
  "string \<Rightarrow> int \<Rightarrow> intent \<Rightarrow> PendingOperation list \<Rightarrow> PendingOperation list" where
  "enqueue uuid now operation ops =
     addPendingOperation (queuedOperation uuid now operation) ops"

definition dequeue :: "PendingOperation list \<Rightarrow> PendingOperation option" where
  "dequeue ops =
     (let operations = getPendingOperationsOrderedByTimestamp ops
      in if length operations > 0 then Some (operations ! 0) else None)"

definition remove_op :: "string \<Rightarrow> PendingOperation list \<Rightarrow> PendingOperation list" where
  "remove_op operationId ops = deletePendingOperation operationId ops"

text \<open>A sequence of calls on the queue, each enqueue with the uuid and the clock value it drew.\<close>

datatype queue_call = Enqueue string int intent | Remove string

fun run_call :: "queue_call \<Rightarrow> PendingOperation list \<Rightarrow> PendingOperation list" where
  "run_call (Enqueue uuid now operation) ops = enqueue uuid now operation ops"
| "run_call (Remove operationId) ops = remove_op operationId ops"

definition run_calls :: "queue_call list \<Rightarrow> PendingOperation list" where
  "run_calls cs = fold run_call cs []"

text \<open>
  The reading of the specification, independent of the store: an operation is pending after
  the calls \<open>cs\<close> when it was enqueued and no later call removed the id it is stored under.
\<close>

fun enqueued_not_removed :: "queue_call list \<Rightarrow> PendingOperation list" where
  "enqueued_not_removed [] = []"
| "enqueued_not_removed (Enqueue uuid now operation # cs) =
     (if Remove (op_id (queuedOperation uuid now operation)) \<in> set cs then []
      else [queuedOperation uuid now operation])
     @ enqueued_not_removed cs"
| "enqueued_not_removed (Remove operationId # cs) = enqueued_not_removed cs"

definition MAX_RETRIES :: nat where
  "MAX_RETRIES = 3"

definition shouldRetry :: "PendingOperation \<Rightarrow> bool" where
  "shouldRetry operation = (retryCount operation < MAX_RETRIES)"

section \<open>SyncService\<close>

text \<open>
  The hosted database is an external collaborator. Its hidden state has the type \<open>'r\<close>; a
  request is answered from that state and may change it. A write is answered with an error
  or with none; an exception thrown by the client while awaiting lands in the same
  \<^verbatim>\<open>catch\<close> as a returned error and is the same answer here.
\<close>

datatype db_request =
    Insert string row
  | Update_eq string row "string option"
  | Delete_eq string "string option"

record 'r supabase_db =
  db_write :: "'r \<Rightarrow> db_request \<Rightarrow> error option \<times> 'r"
  db_select :: "'r \<Rightarrow> string \<Rightarrow> string \<Rightarrow> int option \<Rightarrow> (error + row list option) \<times> 'r"

text \<open>What the service did, in order: the remote calls with their answers, and the deletions
  from the pending-operations region.\<close>

datatype sync_event =
    Remote_write db_request "error option"
  | Remote_select string string "int option"
  | Deleted_pending string

record 'r sync_state =
  supabase :: 'r
  pending_operations :: "PendingOperation list"
  tables :: "string \<Rightarrow> row list"
  sync_log :: "sync_event list"

text \<open>
  \<^verbatim>\<open>BaseService.handleError(error, message)\<close> is not among the sources. It is a
  parameter of every method that calls it: \<open>Some e\<close> when it throws \<open>e\<close>, \<open>None\<close> when it
  returns to its caller.
\<close>

type_synonym handler = "error \<Rightarrow> string \<Rightarrow> error option"

text \<open>
  Two kinds of handler, neither of them taken to be the one of the repository: one that
  throws for every error it is given, and one that logs every error and returns. What the
  sources and the specification say does not tell which kind \<^verbatim>\<open>handleError\<close> is.
\<close>

definition rethrows :: "handler \<Rightarrow> bool" where
  "rethrows handleError = (\<forall>e m. handleError e m \<noteq> None)"

definition swallows :: "handler \<Rightarrow> bool" where
  "swallows handleError = (\<forall>e m. handleError e m = None)"

text \<open>The field \<^verbatim>\<open>id\<close> of a record, \<^verbatim>\<open>undefined\<close> when it has none.\<close>

definition data_id :: "row \<Rightarrow> string option" where
  "data_id d = map_of d ''id''"

text \<open>One awaited write: the answer is logged, the remote state advances.\<close>

definition remote_write ::
  "'r supabase_db \<Rightarrow> db_request \<Rightarrow> 'r sync_state \<Rightarrow> error option \<times> 'r sync_state" where
  "remote_write db rq w =
     (case db_write db (supabase w) rq of
        (answer, r') \<Rightarrow>
          (answer, w\<lparr>supabase := r', sync_log := sync_log w @ [Remote_write rq answer]\<rparr>))"

text \<open>The three methods return \<open>None\<close> when they return, \<open>Some e\<close> when they throw \<open>e\<close>.\<close>

definition createRemote ::
  "handler \<Rightarrow> 'r supabase_db \<Rightarrow> string \<Rightarrow> row \<Rightarrow> 'r sync_state \<Rightarrow> error option \<times> 'r sync_state"
  where
  "createRemote handleError db table d w =
     (case remote_write db (Insert table d) w of
        (None, w') \<Rightarrow> (None, w')
      | (Some e, w') \<Rightarrow> (handleError e (''Failed to create remote '' @ table), w'))"

definition updateRemote ::
  "handler \<Rightarrow> 'r supabase_db \<Rightarrow> string \<Rightarrow> row \<Rightarrow> 'r sync_state \<Rightarrow> error option \<times> 'r sync_state"
  where
  "updateRemote handleError db table d w =
     (case remote_write db (Update_eq table d (data_id d)) w of
        (None, w') \<Rightarrow> (None, w')
      | (Some e, w') \<Rightarrow> (handleError e (''Failed to update remote '' @ table), w'))"

definition deleteRemote ::
  "handler \<Rightarrow> 'r supabase_db \<Rightarrow> string \<Rightarrow> string option \<Rightarrow> 'r sync_state
     \<Rightarrow> error option \<times> 'r sync_state" where
  "deleteRemote handleError db table i w =
     (case remote_write db (Delete_eq table i) w of
        (None, w') \<Rightarrow> (None, w')
      | (Some e, w') \<Rightarrow> (handleError e (''Failed to delete remote '' @ table), w'))"

text \<open>The \<^verbatim>\<open>switch\<close> on \<^verbatim>\<open>op.type\<close> in the loop of \<^verbatim>\<open>syncToRemote\<close>.\<close>

definition dispatch ::
  "handler \<Rightarrow> 'r supabase_db \<Rightarrow> PendingOperation \<Rightarrow> 'r sync_state
     \<Rightarrow> error option \<times> 'r sync_state" where
  "dispatch handleError db p w =
     (case op_type p of
        Create \<Rightarrow> createRemote handleError db (op_table p) (op_data p) w
      | Update \<Rightarrow> updateRemote handleError db (op_table p) (op_data p) w
      | Delete \<Rightarrow> deleteRemote handleError db (op_table p) (data_id (op_data p)) w)"

text \<open>The request that \<open>dispatch\<close> sends for an operation.\<close>

definition request_of :: "PendingOperation \<Rightarrow> db_request" where
  "request_of p =
     (case op_type p of
        Create \<Rightarrow> Insert (op_table p) (op_data p)
      | Update \<Rightarrow> Update_eq (op_table p) (op_data p) (data_id (op_data p))
      | Delete \<Rightarrow> Delete_eq (op_table p) (data_id (op_data p)))"

definition storage_deletePendingOperation :: "string \<Rightarrow> 'r sync_state \<Rightarrow> 'r sync_state" where
  "storage_deletePendingOperation i w =
     w\<lparr>pending_operations := deletePendingOperation i (pending_operations w),
       sync_log := sync_log w @ [Deleted_pending i]\<rparr>"

text \<open>
  The \<^verbatim>\<open>for\<close> loop of \<^verbatim>\<open>syncToRemote\<close> over the operations read before the loop.
  A throw inside the body leaves the loop: the \<^verbatim>\<open>try\<close> encloses the whole loop.
\<close>

fun drain ::
  "handler \<Rightarrow> 'r supabase_db \<Rightarrow> PendingOperation list \<Rightarrow> 'r sync_state
     \<Rightarrow> error option \<times> 'r sync_state" where
  "drain handleError db [] w = (None, w)"
| "drain handleError db (p # ps) w =
     (case dispatch handleError db p w of
        (Some e, w') \<Rightarrow> (Some e, w')
      | (None, w') \<Rightarrow> drain handleError db ps (storage_deletePendingOperation (op_id p) w'))"

definition syncToRemote ::
  "handler \<Rightarrow> 'r supabase_db \<Rightarrow> 'r sync_state \<Rightarrow> error option \<times> 'r sync_state" where
  "syncToRemote handleError db w =
     (case drain handleError db
             (getPendingOperationsOrderedByTimestamp (pending_operations w)) w of
        (None, w') \<Rightarrow> (None, w')
      | (Some e, w') \<Rightarrow> (handleError e ''Failed to sync to remote'', w'))"

text \<open>
  Modelled from the spec: \<^verbatim>\<open>bulkSave(table, rows)\<close> of the absent
  \<^verbatim>\<open>IndexedDBStorage\<close> bulk-writes the result set into the Local Store, fully replacing
  or upserting by primary key. A mirrored table is the list of its rows; the primary key of
  a row is its \<^verbatim>\<open>id\<close>.
\<close>

definition put_row :: "row \<Rightarrow> row list \<Rightarrow> row list" where
  "put_row r rs = filter (\<lambda>x. data_id x \<noteq> data_id r) rs @ [r]"

definition bulkSave :: "string \<Rightarrow> row list \<Rightarrow> 'r sync_state \<Rightarrow> 'r sync_state" where
  "bulkSave table rows w = w\<lparr>tables := (tables w)(table := fold put_row rows (tables w table))\<rparr>"

text \<open>
  \<^verbatim>\<open>if (since)\<close>: an absent or zero \<^verbatim>\<open>since\<close> adds no filter to the query.
\<close>

definition since_filter :: "int option \<Rightarrow> int option" where
  "since_filter since = (case since of None \<Rightarrow> None | Some s \<Rightarrow> if s = 0 then None else Some s)"

text \<open>
  \<^verbatim>\<open>new Date(since).toISOString()\<close> throws a RangeError when the time value is outside
  the range of dates, 8640000000000000 milliseconds to either side of the epoch.
\<close>

definition date_in_range :: "int \<Rightarrow> bool" where
  "date_in_range ms = (- 8640000000000000 \<le> ms \<and> ms \<le> 8640000000000000)"

text \<open>
  \<^verbatim>\<open>syncFromRemote\<close>: the filter is built first, and a RangeError there reaches the
  \<^verbatim>\<open>catch\<close> before any query is sent; otherwise the query is awaited and a non-empty
  result is saved.
\<close>

definition syncFromRemote ::
  "handler \<Rightarrow> 'r supabase_db \<Rightarrow> string \<Rightarrow> string \<Rightarrow> int option \<Rightarrow> 'r sync_state
     \<Rightarrow> error option \<times> 'r sync_state" where
  "syncFromRemote handleError db table orgId since w =
     (if (case since_filter since of None \<Rightarrow> False | Some s \<Rightarrow> \<not> date_in_range s)
      then (handleError ''Invalid time value'' (''Failed to sync '' @ table @ '' from remote''), w)
      else
        (case db_select db (supabase w) table orgId (since_filter since) of
           (answer, r') \<Rightarrow>
             (let w1 = w\<lparr>supabase := r',
                         sync_log := sync_log w @ [Remote_select table orgId (since_filter since)]\<rparr>
              in case answer of
                   Inl e \<Rightarrow> (handleError e (''Failed to sync '' @ table @ '' from remote''), w1)
                 | Inr None \<Rightarrow> (None, w1)
                 | Inr (Some rows) \<Rightarrow>
                     if length rows > 0 then (None, bulkSave table rows w1) else (None, w1))))"

text \<open>The rows a query answered with: none when it failed or carried no data.\<close>

definition returned_rows :: "(error + row list option) \<Rightarrow> row list" where
  "returned_rows answer = (case answer of Inr (Some rows) \<Rightarrow> rows | _ \<Rightarrow> [])"

text \<open>The log of a drain in which every operation of \<open>ps\<close> was acknowledged and then deleted.\<close>

definition acked_log :: "PendingOperation list \<Rightarrow> sync_event list" where
  "acked_log ps = concat (map (\<lambda>p. [Remote_write (request_of p) None, Deleted_pending (op_id p)]) ps)"

section \<open>The upload hook: useStorage\<close>

record File =
  file_name :: string
  file_bytes :: string

datatype task_status = Queued | Uploading | Done | Failed

text \<open>
  \<^verbatim>\<open>UploadTask\<close> is imported from the absent \<^verbatim>\<open>utils/uploadQueue\<close>; its fields are
  those of the object literal in \<^verbatim>\<open>uploadFiles\<close>.
\<close>

record UploadTask =
  task_id :: string
  task_file :: File
  task_path :: string
  task_bucket :: string
  task_retries :: nat
  task_status :: task_status
  task_progress :: nat

text \<open>
  The object storage of the hosted backend, with hidden state \<open>'r\<close>.
  \<^verbatim>\<open>from(bucket).list(path)\<close> answers with an error or with the entries found;
  \<^verbatim>\<open>from(bucket).upload(path, file)\<close> answers with an error or with data, whose path is
  returned, or with neither. A thrown exception is the same answer as a returned error:
  both reach the same \<^verbatim>\<open>catch\<close>.
\<close>

record 'r storage_api =
  storage_list :: "'r \<Rightarrow> string \<Rightarrow> string \<Rightarrow> (error + string list) \<times> 'r"
  storage_upload :: "'r \<Rightarrow> string \<Rightarrow> string \<Rightarrow> File \<Rightarrow> (error + string option) \<times> 'r"

datatype variant = VInfo | VSuccess | VWarning | VError

text \<open>The notifications of the hook, one constructor for each message template, with the
  file name (and the attempt number) the template is filled with.\<close>

datatype message =
    Already_exists_removed string
  | Successfully_uploaded string
  | Retrying_upload string nat
  | Max_retries_exceeded string
  | Already_exists_skipping string
  | Queued_upload string
  | Queued_upload_offline string

text \<open>What the hook did, in order: remote storage calls with bucket, path and answer,
  notifications, and calls of the progress callback with the files processed and the total.\<close>

datatype ui_event =
    Storage_list string string "error + string list"
  | Storage_upload string string File "error + string option"
  | Snackbar message variant
  | Progress nat nat

record 'r upload_state =
  storage_remote :: 'r
  pending_uploads :: "UploadTask list"
  uuids_drawn :: nat
  ui_log :: "ui_event list"

text \<open>
  Modelled from the spec: the module \<^verbatim>\<open>utils/uploadQueue\<close> is not among the sources.
  The Upload Queue is a durable queue of tasks keyed by task id: \<^verbatim>\<open>addToQueue\<close>
  enqueues a task, \<^verbatim>\<open>getAllQueuedUploads\<close> reads the queued tasks,
  \<^verbatim>\<open>removeFromQueue\<close> removes the task with the id, \<^verbatim>\<open>updateQueueItem\<close>
  persists the mutated task under its id.
\<close>

definition addToQueue :: "UploadTask \<Rightarrow> 'r upload_state \<Rightarrow> 'r upload_state" where
  "addToQueue t w = w\<lparr>pending_uploads := pending_uploads w @ [t]\<rparr>"

definition getAllQueuedUploads :: "'r upload_state \<Rightarrow> UploadTask list" where
  "getAllQueuedUploads w = pending_uploads w"

definition removeFromQueue :: "string \<Rightarrow> 'r upload_state \<Rightarrow> 'r upload_state" where
  "removeFromQueue i w =
     w\<lparr>pending_uploads := filter (\<lambda>t. task_id t \<noteq> i) (pending_uploads w)\<rparr>"

definition updateQueueItem :: "UploadTask \<Rightarrow> 'r upload_state \<Rightarrow> 'r upload_state" where
  "updateQueueItem t w =
     w\<lparr>pending_uploads :=
         (if task_id t \<in> task_id ` set (pending_uploads w)
          then map (\<lambda>u. if task_id u = task_id t then t else u) (pending_uploads w)
          else pending_uploads w @ [t])\<rparr>"

definition enqueueSnackbar :: "message \<Rightarrow> variant \<Rightarrow> 'r upload_state \<Rightarrow> 'r upload_state" where
  "enqueueSnackbar m v w = w\<lparr>ui_log := ui_log w @ [Snackbar m v]\<rparr>"

text \<open>
  \<^verbatim>\<open>getStorageClient\<close> throws when there is no connector; the connector is \<open>None\<close> then.
\<close>

definition getStorageClient :: "'r storage_api option \<Rightarrow> error + 'r storage_api" where
  "getStorageClient connector =
     (case connector of None \<Rightarrow> Inl ''No auth connector available'' | Some api \<Rightarrow> Inr api)"

definition uploadFile ::
  "'r storage_api option \<Rightarrow> File \<Rightarrow> string \<Rightarrow> string \<Rightarrow> 'r upload_state
     \<Rightarrow> (error + string) \<times> 'r upload_state" where
  "uploadFile connector f p b w =
     (case getStorageClient connector of
        Inl e \<Rightarrow> (Inl e, w)
      | Inr api \<Rightarrow>
          (case storage_upload api (storage_remote w) b p f of
             (answer, r') \<Rightarrow>
               (let w' = w\<lparr>storage_remote := r',
                           ui_log := ui_log w @ [Storage_upload b p f answer]\<rparr>
                in case answer of
                     Inl e \<Rightarrow> (Inl e, w')
                   | Inr None \<Rightarrow> (Inl ''Upload failed'', w')
                   | Inr (Some data_path) \<Rightarrow> (Inr data_path, w'))))"

definition fileExists ::
  "'r storage_api option \<Rightarrow> string \<Rightarrow> 'r upload_state \<Rightarrow> bool \<times> 'r upload_state" where
  "fileExists connector p w =
     (case getStorageClient connector of
        Inl e \<Rightarrow> (False, w)
      | Inr api \<Rightarrow>
          (case storage_list api (storage_remote w) ''processed-data'' p of
             (answer, r') \<Rightarrow>
               (let w' = w\<lparr>storage_remote := r',
                           ui_log := ui_log w @ [Storage_list ''processed-data'' p answer]\<rparr>
                in case answer of
                     Inl e \<Rightarrow> (False, w')
                   | Inr entries \<Rightarrow> (length entries > 0, w'))))"

text \<open>The body of the loop of \<^verbatim>\<open>processUploadQueue\<close> for one task of the snapshot.\<close>

definition processUploadTask ::
  "'r storage_api option \<Rightarrow> UploadTask \<Rightarrow> 'r upload_state \<Rightarrow> 'r upload_state" where
  "processUploadTask connector uploadTask w =
     (case fileExists connector (task_path uploadTask) w of
        (exists, w1) \<Rightarrow>
          if exists then
            enqueueSnackbar (Already_exists_removed (file_name (task_file uploadTask))) VInfo
              (removeFromQueue (task_id uploadTask) w1)
          else
            (case uploadFile connector (task_file uploadTask) (task_path uploadTask)
                    (task_bucket uploadTask) w1 of
               (Inr data_path, w2) \<Rightarrow>
                 enqueueSnackbar (Successfully_uploaded (file_name (task_file uploadTask))) VSuccess
                   (removeFromQueue (task_id uploadTask) w2)
             | (Inl e, w2) \<Rightarrow>
                 if task_retries uploadTask < 3 then
                   enqueueSnackbar
                     (Retrying_upload (file_name (task_file uploadTask))
                        (task_retries uploadTask + 1)) VWarning
                     (updateQueueItem
                        (uploadTask\<lparr>task_retries := task_retries uploadTask + 1\<rparr>) w2)
                 else
                   removeFromQueue (task_id uploadTask)
                     (enqueueSnackbar
                        (Max_retries_exceeded (file_name (task_file uploadTask))) VError w2)))"

definition processUploadQueue ::
  "bool \<Rightarrow> 'r storage_api option \<Rightarrow> 'r upload_state \<Rightarrow> 'r upload_state" where
  "processUploadQueue isOnline connector w =
     (if \<not> isOnline then w
      else fold (processUploadTask connector) (getAllQueuedUploads w) w)"

text \<open>
  \<^verbatim>\<open>uploadFiles\<close>. The uuids come from \<^verbatim>\<open>uuidv4\<close>, a parameter: the \<open>n\<close>-th call
  of the session returns \<open>uuidv4 n\<close>. The optional progress callback is present or not.
\<close>

definition onProgress_call :: "bool \<Rightarrow> nat \<Rightarrow> nat \<Rightarrow> 'r upload_state \<Rightarrow> 'r upload_state" where
  "onProgress_call onProgress filesProcessed totalFiles w =
     (if onProgress then w\<lparr>ui_log := ui_log w @ [Progress filesProcessed totalFiles]\<rparr> else w)"

text \<open>The task literal of \<^verbatim>\<open>uploadFiles\<close>, the same in its two branches, and its
  queueing: a uuid is drawn, the task is added to the queue.\<close>

definition queued_task :: "string \<Rightarrow> File \<Rightarrow> string \<Rightarrow> string \<Rightarrow> UploadTask" where
  "queued_task uuid f p b =
     \<lparr>task_id = uuid, task_file = f, task_path = p, task_bucket = b,
      task_retries = 0, task_status = Queued, task_progress = 0\<rparr>"

definition queue_new_task ::
  "(nat \<Rightarrow> string) \<Rightarrow> File \<Rightarrow> string \<Rightarrow> string \<Rightarrow> 'r upload_state \<Rightarrow> 'r upload_state" where
  "queue_new_task uuidv4 f p b w =
     addToQueue (queued_task (uuidv4 (uuids_drawn w)) f p b)
       (w\<lparr>uuids_drawn := Suc (uuids_drawn w)\<rparr>)"

text \<open>The body of the loop of \<^verbatim>\<open>uploadFiles\<close>: the state is the list of paths, the count
  of processed files and the world.\<close>

definition uploadOne ::
  "bool \<Rightarrow> 'r storage_api option \<Rightarrow> (nat \<Rightarrow> string) \<Rightarrow> string \<Rightarrow> string \<Rightarrow> bool \<Rightarrow> nat
     \<Rightarrow> File \<Rightarrow> string list \<times> nat \<times> 'r upload_state \<Rightarrow> string list \<times> nat \<times> 'r upload_state"
  where
  "uploadOne isOnline connector uuidv4 basePath b onProgress totalFiles f acc =
     (case acc of
        (paths, filesProcessed, w) \<Rightarrow>
          (let p = basePath @ ''/'' @ file_name f in
           if isOnline then
             (case fileExists connector p w of
                (exists, w1) \<Rightarrow>
                  if exists then
                    (paths @ [p], filesProcessed + 1,
                     onProgress_call onProgress (filesProcessed + 1) totalFiles
                       (enqueueSnackbar (Already_exists_skipping (file_name f)) VInfo w1))
                  else
                    (case uploadFile connector f p b w1 of
                       (Inr data_path, w2) \<Rightarrow>
                         (paths @ [p], filesProcessed + 1,
                          onProgress_call onProgress (filesProcessed + 1) totalFiles w2)
                     | (Inl e, w2) \<Rightarrow>
                         (paths @ [p], filesProcessed + 1,
                          onProgress_call onProgress (filesProcessed + 1) totalFiles
                            (enqueueSnackbar (Queued_upload (file_name f)) VWarning
                               (queue_new_task uuidv4 f p b w2)))))
           else
             (paths @ [p], filesProcessed + 1,
              onProgress_call onProgress (filesProcessed + 1) totalFiles
                (enqueueSnackbar (Queued_upload_offline (file_name f)) VInfo
                   (queue_new_task uuidv4 f p b w)))))"

definition uploadFiles ::
  "bool \<Rightarrow> 'r storage_api option \<Rightarrow> (nat \<Rightarrow> string) \<Rightarrow> File list \<Rightarrow> string \<Rightarrow> string \<Rightarrow> bool
     \<Rightarrow> 'r upload_state \<Rightarrow> string list \<times> 'r upload_state" where
  "uploadFiles isOnline connector uuidv4 files basePath b onProgress w =
     (case fold (uploadOne isOnline connector uuidv4 basePath b onProgress (length files)) files
             ([], 0, w) of
        (paths, filesProcessed, w') \<Rightarrow> (paths, w'))"

text \<open>Readings of the log.\<close>

fun is_remote_call :: "ui_event \<Rightarrow> bool" where
  "is_remote_call (Storage_list b p a) = True"
| "is_remote_call (Storage_upload b p f a) = True"
| "is_remote_call (Snackbar m v) = False"
| "is_remote_call (Progress n t) = False"

fun lists_made :: "ui_event list \<Rightarrow> (string \<times> string) list" where
  "lists_made [] = []"
| "lists_made (Storage_list b p a # es) = (b, p) # lists_made es"
| "lists_made (e # es) = lists_made es"

fun uploads_attempted :: "ui_event list \<Rightarrow> (string \<times> string \<times> File) list" where
  "uploads_attempted [] = []"
| "uploads_attempted (Storage_upload b p f a # es) = (b, p, f) # uploads_attempted es"
| "uploads_attempted (e # es) = uploads_attempted es"

fun snackbars :: "ui_event list \<Rightarrow> (message \<times> variant) list" where
  "snackbars [] = []"
| "snackbars (Snackbar m v # es) = (m, v) # snackbars es"
| "snackbars (e # es) = snackbars es"

fun message_file :: "message \<Rightarrow> string" where
  "message_file (Already_exists_removed n) = n"
| "message_file (Successfully_uploaded n) = n"
| "message_file (Retrying_upload n k) = n"
| "message_file (Max_retries_exceeded n) = n"
| "message_file (Already_exists_skipping n) = n"
| "message_file (Queued_upload n) = n"
| "message_file (Queued_upload_offline n) = n"

text \<open>The existence check for a path fails: there is no connector, or the listing is answered
  with an error.\<close>

definition check_fails :: "'r storage_api option \<Rightarrow> string \<Rightarrow> 'r upload_state \<Rightarrow> bool" where
  "check_fails connector p w =
     (case connector of
        None \<Rightarrow> True
      | Some api \<Rightarrow> isl (fst (storage_list api (storage_remote w) ''processed-data'' p)))"

section \<open>AuthService\<close>

record Session =
  access_token :: string
  expires_at :: "nat option"

record User =
  user_id :: string
  email :: string
  last_sign_in_at :: "string option"

text \<open>The user object of the hosted auth service: email and last sign-in may be missing.\<close>

record remote_user =
  ru_id :: string
  ru_email :: "string option"
  ru_last_sign_in_at :: "string option"

record UserProfile =
  profile_id :: string
  organization_id :: "string option"

record Organization =
  org_id :: string
  org_name :: string

text \<open>
  The hosted auth service and database, with hidden state \<open>'r\<close>. A call either throws
  (\<open>Inl\<close>) or returns the pair of data and error of the client library (\<open>Inr\<close>).
\<close>

record 'r auth_api =
  auth_getSession :: "'r \<Rightarrow> (error + Session option \<times> error option) \<times> 'r"
  auth_getUser :: "'r \<Rightarrow> (error + remote_user option \<times> error option) \<times> 'r"
  select_profile :: "'r \<Rightarrow> string \<Rightarrow> (error + UserProfile option \<times> error option) \<times> 'r"
  select_organization :: "'r \<Rightarrow> string \<Rightarrow> (error + Organization option \<times> error option) \<times> 'r"

datatype auth_event =
    Fetch_session
  | Fetch_user
  | Fetch_profile string
  | Fetch_organization string

record 'r auth_state =
  auth_remote :: 'r
  session_slot :: "Session option"
  user_slot :: "User option"
  user_profiles :: "string \<rightharpoonup> UserProfile"
  organizations :: "string \<rightharpoonup> Organization"
  auth_log :: "auth_event list"

text \<open>
  Modelled from the spec: the cached auth entities of the absent \<^verbatim>\<open>IndexedDBStorage\<close>
  have a save/get/remove lifecycle keyed by entity id (profiles, organizations) or held in a
  singleton slot (session, user).
\<close>

definition storage_getSession :: "'r auth_state \<Rightarrow> Session option" where
  "storage_getSession w = session_slot w"

definition storage_saveSession :: "Session \<Rightarrow> 'r auth_state \<Rightarrow> 'r auth_state" where
  "storage_saveSession session w = w\<lparr>session_slot := Some session\<rparr>"

definition storage_getUser :: "'r auth_state \<Rightarrow> User option" where
  "storage_getUser w = user_slot w"

definition storage_saveUser :: "User \<Rightarrow> 'r auth_state \<Rightarrow> 'r auth_state" where
  "storage_saveUser u w = w\<lparr>user_slot := Some u\<rparr>"

definition storage_getUserProfile :: "string \<Rightarrow> 'r auth_state \<Rightarrow> UserProfile option" where
  "storage_getUserProfile userId w = user_profiles w userId"

definition storage_saveUserProfile :: "UserProfile \<Rightarrow> 'r auth_state \<Rightarrow> 'r auth_state" where
  "storage_saveUserProfile profile w =
     w\<lparr>user_profiles := (user_profiles w)(profile_id profile \<mapsto> profile)\<rparr>"

definition storage_getOrganization :: "string \<Rightarrow> 'r auth_state \<Rightarrow> Organization option" where
  "storage_getOrganization orgId w = organizations w orgId"

definition storage_saveOrganization :: "Organization \<Rightarrow> 'r auth_state \<Rightarrow> 'r auth_state" where
  "storage_saveOrganization organization w =
     w\<lparr>organizations := (organizations w)(org_id organization \<mapsto> organization)\<rparr>"

text \<open>
  \<^verbatim>\<open>getSession\<close>: the remote call comes first. With an error, without a session, or when
  the call throws, the locally stored session (or null) is returned.
\<close>

definition getSession :: "'r auth_api \<Rightarrow> 'r auth_state \<Rightarrow> Session option \<times> 'r auth_state" where
  "getSession api w =
     (case auth_getSession api (auth_remote w) of
        (answer, r') \<Rightarrow>
          (let w1 = w\<lparr>auth_remote := r', auth_log := auth_log w @ [Fetch_session]\<rparr>
           in case answer of
                Inl thrown \<Rightarrow> (storage_getSession w1, w1)
              | Inr (session, err) \<Rightarrow>
                  (case session of
                     None \<Rightarrow> (storage_getSession w1, w1)
                   | Some s \<Rightarrow>
                       if err \<noteq> None then (storage_getSession w1, w1)
                       else (Some s, storage_saveSession s w1))))"

text \<open>The \<^verbatim>\<open>User\<close> built from the remote user, with \<^verbatim>\<open>user.email || ''\<close> and
  \<^verbatim>\<open>user?.last_sign_in_at || null\<close>; an empty string is falsy.\<close>

definition currentUser_of :: "remote_user \<Rightarrow> User" where
  "currentUser_of u =
     \<lparr>user_id = ru_id u,
      email = (case ru_email u of None \<Rightarrow> [] | Some e \<Rightarrow> e),
      last_sign_in_at =
        (case ru_last_sign_in_at u of None \<Rightarrow> None | Some t \<Rightarrow> if t = [] then None else Some t)\<rparr>"

definition getCurrentUser :: "'r auth_api \<Rightarrow> 'r auth_state \<Rightarrow> User option \<times> 'r auth_state" where
  "getCurrentUser api w =
     (case auth_getUser api (auth_remote w) of
        (answer, r') \<Rightarrow>
          (let w1 = w\<lparr>auth_remote := r', auth_log := auth_log w @ [Fetch_user]\<rparr>
           in case answer of
                Inl thrown \<Rightarrow> (storage_getUser w1, w1)
              | Inr (u, err) \<Rightarrow>
                  (case u of
                     None \<Rightarrow> (storage_getUser w1, w1)
                   | Some ru \<Rightarrow>
                       if err \<noteq> None then (storage_getUser w1, w1)
                       else (Some (currentUser_of ru), storage_saveUser (currentUser_of ru) w1))))"

text \<open>
  \<^verbatim>\<open>getUserProfile\<close> and \<^verbatim>\<open>getOrganization\<close> try the local store first; the remote
  is asked only when the local store has no entry, and a failure is rethrown.
\<close>

definition getUserProfile ::
  "'r auth_api \<Rightarrow> string \<Rightarrow> 'r auth_state \<Rightarrow> (error + UserProfile) \<times> 'r auth_state" where
  "getUserProfile api userId w =
     (case storage_getUserProfile userId w of
        Some localProfile \<Rightarrow> (Inr localProfile, w)
      | None \<Rightarrow>
          (case select_profile api (auth_remote w) userId of
             (answer, r') \<Rightarrow>
               (let w1 = w\<lparr>auth_remote := r', auth_log := auth_log w @ [Fetch_profile userId]\<rparr>
                in case answer of
                     Inl thrown \<Rightarrow> (Inl thrown, w1)
                   | Inr (d, Some e) \<Rightarrow> (Inl e, w1)
                   | Inr (None, None) \<Rightarrow> (Inl ''User profile not found'', w1)
                   | Inr (Some profile, None) \<Rightarrow>
                       (Inr profile, storage_saveUserProfile profile w1))))"

definition getOrganization ::
  "'r auth_api \<Rightarrow> string \<Rightarrow> 'r auth_state \<Rightarrow> (error + Organization) \<times> 'r auth_state" where
  "getOrganization api orgId w =
     (case storage_getOrganization orgId w of
        Some localOrg \<Rightarrow> (Inr localOrg, w)
      | None \<Rightarrow>
          (case select_organization api (auth_remote w) orgId of
             (answer, r') \<Rightarrow>
               (let w1 = w\<lparr>auth_remote := r',
                           auth_log := auth_log w @ [Fetch_organization orgId]\<rparr>
                in case answer of
                     Inl thrown \<Rightarrow> (Inl thrown, w1)
                   | Inr (d, Some e) \<Rightarrow> (Inl e, w1)
                   | Inr (None, None) \<Rightarrow> (Inl ''Organization not found'', w1)
                   | Inr (Some organization, None) \<Rightarrow>
                       (Inr organization, storage_saveOrganization organization w1))))"

text \<open>The data of a remote answer that carries data and no error.\<close>

definition fetched :: "(error + 'a option \<times> error option) \<Rightarrow> 'a option" where
  "fetched answer =
     (case answer of Inl thrown \<Rightarrow> None | Inr (d, Some e) \<Rightarrow> None | Inr (d, None) \<Rightarrow> d)"

section \<open>Concrete inputs\<close>

text \<open>A handler that rethrows the error it is given, and one that only logs it.\<close>

definition ex_rethrow :: handler where
  "ex_rethrow = (\<lambda>e m. Some e)"

definition ex_swallow :: handler where
  "ex_swallow = (\<lambda>e m. None)"

definition ex_op_a :: PendingOperation where
  "ex_op_a = \<lparr>op_id = ''a'', op_type = Update, op_table = ''y'', op_data = [(''id'', ''7'')],
              timestamp = 50, retryCount = 0\<rparr>"

definition ex_op_b :: PendingOperation where
  "ex_op_b = \<lparr>op_id = ''b'', op_type = Create, op_table = ''x'', op_data = [(''id'', ''8'')],
              timestamp = 100, retryCount = 0\<rparr>"

text \<open>A remote whose state counts the requests it has answered: it acknowledges the first
  \<open>n\<close> writes and fails every later one; a select answers with the given rows.\<close>

definition ex_db :: "nat \<Rightarrow> row list \<Rightarrow> nat supabase_db" where
  "ex_db n rows =
     \<lparr>db_write = (\<lambda>r rq. (if r < n then None else Some ''network down'', Suc r)),
      db_select = (\<lambda>r t org since. (Inr (Some rows), Suc r))\<rparr>"

definition ex_sync_state :: "nat sync_state" where
  "ex_sync_state =
     \<lparr>supabase = 0, pending_operations = [ex_op_b, ex_op_a],
      tables = (\<lambda>t. if t = ''samples'' then [[(''id'', ''1''), (''v'', ''old'')],
                                              [(''id'', ''2''), (''v'', ''kept'')]] else []),
      sync_log = []\<rparr>"

text \<open>An object storage whose state is the list of the stored (bucket, path) pairs; listing
  and uploading can each be made to fail.\<close>

definition ex_storage :: "bool \<Rightarrow> bool \<Rightarrow> (string \<times> string) list storage_api" where
  "ex_storage list_fails upload_fails =
     \<lparr>storage_list = (\<lambda>r b p.
        (if list_fails then Inl ''list failed''
         else Inr (filter (\<lambda>q. q = p) (map snd (filter (\<lambda>x. fst x = b) r))), r)),
      storage_upload = (\<lambda>r b p f.
        if upload_fails then (Inl ''upload failed'', r) else (Inr (Some p), r @ [(b, p)]))\<rparr>"

definition ex_file :: File where
  "ex_file = \<lparr>file_name = ''reads.fastq'', file_bytes = ''ACGT''\<rparr>"

definition ex_file2 :: File where
  "ex_file2 = \<lparr>file_name = ''report.json'', file_bytes = ''{}''\<rparr>"

definition ex_task :: "string \<Rightarrow> File \<Rightarrow> nat \<Rightarrow> UploadTask" where
  "ex_task i f n =
     \<lparr>task_id = i, task_file = f, task_path = ''org/'' @ file_name f, task_bucket = ''raw-data'',
      task_retries = n, task_status = Queued, task_progress = 0\<rparr>"

definition ex_upload_state ::
  "(string \<times> string) list \<Rightarrow> UploadTask list \<Rightarrow> (string \<times> string) list upload_state" where
  "ex_upload_state stored queue =
     \<lparr>storage_remote = stored, pending_uploads = queue, uuids_drawn = 0, ui_log = []\<rparr>"

definition ex_uuidv4 :: "nat \<Rightarrow> string" where
  "ex_uuidv4 n = replicate (Suc n) CHR ''u''"

text \<open>An auth service that answers every read with fresh data, and a local store that holds
  an older session, an older profile and an older organization.\<close>

definition ex_auth_api :: "unit auth_api" where
  "ex_auth_api =
     \<lparr>auth_getSession = (\<lambda>r. (Inr (Some \<lparr>access_token = ''fresh'', expires_at = Some 2000\<rparr>, None), r)),
      auth_getUser = (\<lambda>r. (Inr (Some \<lparr>ru_id = ''u1'', ru_email = None,
                                      ru_last_sign_in_at = Some []\<rparr>, None), r)),
      select_profile = (\<lambda>r i. (Inr (Some \<lparr>profile_id = i, organization_id = Some ''new-org''\<rparr>,
                                     None), r)),
      select_organization = (\<lambda>r i. (Inr (Some \<lparr>org_id = i, org_name = ''renamed''\<rparr>, None), r))\<rparr>"

definition ex_auth_state :: "unit auth_state" where
  "ex_auth_state =
     \<lparr>auth_remote = (),
      session_slot = Some \<lparr>access_token = ''stale'', expires_at = Some 1000\<rparr>,
      user_slot = None,
      user_profiles = [''u1'' \<mapsto> \<lparr>profile_id = ''u1'', organization_id = Some ''old-org''\<rparr>],
      organizations = [''o1'' \<mapsto> \<lparr>org_id = ''o1'', org_name = ''original''\<rparr>],
      auth_log = []\<rparr>"

section \<open>Properties of the Operation Queue\<close>

lemma run_calls_from:
  "fold run_call cs ops =
     filter (\<lambda>p. Remove (op_id p) \<notin> set cs) ops @ enqueued_not_removed cs"
proof (induction cs arbitrary: ops)
  case Nil
  then show ?case by simp
next
  case (Cons c cs)
  show ?case
  proof (cases c)
    case (Enqueue u t i)
    then show ?thesis
      using Cons.IH by (simp add: enqueue_def addPendingOperation_def)
  next
    case (Remove i)
    then show ?thesis
      using Cons.IH
      by (auto simp add: remove_op_def deletePendingOperation_def intro!: filter_cong)
  qed
qed

lemma run_calls_pending: "run_calls cs = enqueued_not_removed cs"
  by (simp add: run_calls_def run_calls_from)

lemma sort_key_Nil_iff: "sort_key f xs = [] \<longleftrightarrow> xs = []"
  using length_sort [of f xs] by (metis length_0_conv)

lemma dequeue_None: "dequeue ops = None \<longleftrightarrow> ops = []"
  by (simp add: dequeue_def getPendingOperationsOrderedByTimestamp_def Let_def sort_key_Nil_iff)

lemma dequeue_Some:
  assumes "dequeue ops = Some p"
  shows "p \<in> set ops \<and> (\<forall>q \<in> set ops. timestamp p \<le> timestamp q)"
proof -
  let ?s = "sort_key timestamp ops"
  from assms have ne: "?s \<noteq> []" and p: "p = hd ?s"
    by (auto simp: dequeue_def getPendingOperationsOrderedByTimestamp_def Let_def hd_conv_nth
        sort_key_Nil_iff split: if_splits)
  obtain rest where s: "?s = p # rest" using ne p by (cases ?s) auto
  have "p \<in> set ?s" using s by simp
  then have mem: "p \<in> set ops" by simp
  have "sorted (map timestamp ?s)" by (rule sorted_sort_key)
  then have "\<forall>q \<in> set ?s. timestamp p \<le> timestamp q"
    using s by auto
  then show ?thesis using mem by simp
qed

text \<open>
  After any sequence of enqueue and remove calls, \<^verbatim>\<open>dequeue\<close> returns null exactly when
  no operation is enqueued and not yet removed, and otherwise an operation that is enqueued
  and not yet removed and whose timestamp is the smallest among those.
\<close>

lemma dequeue_earliest:
  "(dequeue (run_calls cs) = None \<longleftrightarrow> enqueued_not_removed cs = []) \<and>
   (\<forall>p. dequeue (run_calls cs) = Some p \<longrightarrow>
        p \<in> set (enqueued_not_removed cs) \<and>
        (\<forall>q \<in> set (enqueued_not_removed cs). timestamp p \<le> timestamp q))"
proof -
  have a: "dequeue (run_calls cs) = None \<longleftrightarrow> enqueued_not_removed cs = []"
    by (simp add: dequeue_None run_calls_pending)
  have b: "\<forall>p. dequeue (run_calls cs) = Some p \<longrightarrow>
        p \<in> set (enqueued_not_removed cs) \<and>
        (\<forall>q \<in> set (enqueued_not_removed cs). timestamp p \<le> timestamp q)"
    using dequeue_Some [of "run_calls cs"] by (simp add: run_calls_pending)
  from a b show ?thesis by blast
qed

text \<open>
  What \<^verbatim>\<open>enqueue\<close> stores: the clock value as timestamp and 0 as retryCount always; as
  id the uuid it drew only when the argument carries no id, and the carried id otherwise.
\<close>

lemma enqueue_stores:
  "enqueue uuid now operation ops = ops @ [queuedOperation uuid now operation] \<and>
   timestamp (queuedOperation uuid now operation) = now \<and>
   retryCount (queuedOperation uuid now operation) = 0 \<and>
   op_id (queuedOperation uuid now operation)
     = (case in_id operation of None \<Rightarrow> uuid | Some carried \<Rightarrow> carried)"
  by (simp add: enqueue_def addPendingOperation_def queuedOperation_def)


text \<open>
  C9. Removing an id under which no operation is stored leaves the queue as it is; the
  model has no error branch for it. Hence a second \<^verbatim>\<open>remove(id)\<close> changes nothing.
\<close>

theorem remove_absent_noop:
  "(operationId \<notin> op_id ` set ops \<longrightarrow> remove_op operationId ops = ops) \<and>
   remove_op operationId (remove_op operationId ops) = remove_op operationId ops"
  by (auto simp: remove_op_def deletePendingOperation_def filter_id_conv)

theorem remove_absent_noop_witness:
  "''b'' \<notin> op_id ` set [\<lparr>op_id = ''a'', op_type = Create, op_table = ''x'', op_data = [],
                               timestamp = 5, retryCount = 0\<rparr>] \<and>
   remove_op ''b'' [\<lparr>op_id = ''a'', op_type = Create, op_table = ''x'', op_data = [],
                     timestamp = 5, retryCount = 0\<rparr>]
     = [\<lparr>op_id = ''a'', op_type = Create, op_table = ''x'', op_data = [],
          timestamp = 5, retryCount = 0\<rparr>]"
  using remove_absent_noop [of "''b''" "[\<lparr>op_id = ''a'', op_type = Create, op_table = ''x'',
      op_data = [], timestamp = 5, retryCount = 0\<rparr>]"]
  by simp

section \<open>Properties of the Sync Engine\<close>

lemma dispatch_answer:
  assumes "dispatch he db p w = (res, w')"
  shows "\<exists>a r'. db_write db (supabase w) (request_of p) = (a, r') \<and>
           w' = w\<lparr>supabase := r', sync_log := sync_log w @ [Remote_write (request_of p) a]\<rparr> \<and>
           (case a of None \<Rightarrow> res = None | Some e \<Rightarrow> \<exists>m. res = he e m)"
  using assms
  by (cases "op_type p")
     (auto simp: dispatch_def request_of_def createRemote_def updateRemote_def deleteRemote_def
        remote_write_def split: prod.splits option.splits)

lemma drain_rethrows:
  assumes he: "rethrows he"
  shows "drain he db ps w = (res, w') \<Longrightarrow>
    \<exists>done rest tail. ps = done @ rest \<and>
       sync_log w' = sync_log w @ acked_log done @ tail \<and>
       pending_operations w' =
         filter (\<lambda>q. op_id q \<notin> op_id ` set done) (pending_operations w) \<and>
       tables w' = tables w \<and>
       ((rest = [] \<and> res = None \<and> tail = []) \<or>
        (\<exists>p e. rest \<noteq> [] \<and> p = hd rest \<and> res \<noteq> None \<and>
                tail = [Remote_write (request_of p) (Some e)]))"
proof (induction ps arbitrary: w)
  case Nil
  then show ?case by (auto simp: acked_log_def)
next
  case (Cons p ps)
  obtain r1 w1 where d: "dispatch he db p w = (r1, w1)" by (cases "dispatch he db p w")
  from dispatch_answer [OF d] obtain a r' where
    w1: "w1 = w\<lparr>supabase := r', sync_log := sync_log w @ [Remote_write (request_of p) a]\<rparr>"
    and a: "case a of None \<Rightarrow> r1 = None | Some e \<Rightarrow> \<exists>m. r1 = he e m"
    by blast
  show ?case
  proof (cases a)
    case None
    with a have r1: "r1 = None" by simp
    let ?w2 = "storage_deletePendingOperation (op_id p) w1"
    from Cons.prems d r1 have "drain he db ps ?w2 = (res, w')" by simp
    from Cons.IH [OF this] obtain dn rest tail where
      ps: "ps = dn @ rest" and
      lg: "sync_log w' = sync_log ?w2 @ acked_log dn @ tail" and
      po: "pending_operations w' =
             filter (\<lambda>q. op_id q \<notin> op_id ` set dn) (pending_operations ?w2)" and
      tb: "tables w' = tables ?w2" and
      fin: "(rest = [] \<and> res = None \<and> tail = []) \<or>
        (\<exists>p e. rest \<noteq> [] \<and> p = hd rest \<and> res \<noteq> None \<and>
                tail = [Remote_write (request_of p) (Some e)])"
      by blast
    have 1: "p # ps = (p # dn) @ rest" using ps by simp
    have 2: "sync_log w' = sync_log w @ acked_log (p # dn) @ tail"
      using lg w1 None by (simp add: storage_deletePendingOperation_def acked_log_def)
    have 3: "pending_operations w' =
         filter (\<lambda>q. op_id q \<notin> op_id ` set (p # dn)) (pending_operations w)"
      using po w1 by (auto simp: storage_deletePendingOperation_def deletePendingOperation_def
          intro!: filter_cong)
    have 4: "tables w' = tables w"
      using tb w1 by (simp add: storage_deletePendingOperation_def)
    from 1 2 3 4 fin show ?thesis by blast
  next
    case (Some e)
    with a obtain m where "r1 = he e m" by auto
    with he have r1: "r1 \<noteq> None" by (simp add: rethrows_def)
    from Cons.prems d r1 have res: "res = r1" and w': "w' = w1"
      by (auto split: option.splits)
    have 1: "p # ps = [] @ (p # ps)" by simp
    have 2: "sync_log w' = sync_log w @ acked_log [] @ [Remote_write (request_of p) (Some e)]"
      using w' w1 Some by (simp add: acked_log_def)
    have 3: "pending_operations w' =
         filter (\<lambda>q. op_id q \<notin> op_id ` set []) (pending_operations w)"
      using w' w1 by simp
    have 4: "tables w' = tables w" using w' w1 by simp
    have 5: "p # ps \<noteq> [] \<and> p = hd (p # ps) \<and> res \<noteq> None" using res r1 by simp
    from 1 2 3 4 5 show ?thesis by blast
  qed
qed


text \<open>
  With a handler that only logs and returns, a method whose remote call failed returns like
  one whose call succeeded, so the drain goes through all operations and deletes every one
  of them, acknowledged or not.
\<close>

lemma drain_swallows:
  assumes he: "swallows handleError"
  shows "drain handleError db ps w = (res, w') \<Longrightarrow>
           res = None \<and>
           pending_operations w' =
             filter (\<lambda>q. op_id q \<notin> op_id ` set ps) (pending_operations w)"
proof (induction ps arbitrary: w)
  case Nil
  then show ?case by simp
next
  case (Cons p ps)
  obtain r1 w1 where d: "dispatch handleError db p w = (r1, w1)"
    by (cases "dispatch handleError db p w")
  from dispatch_answer [OF d] obtain a r' where
    w1: "w1 = w\<lparr>supabase := r', sync_log := sync_log w @ [Remote_write (request_of p) a]\<rparr>"
    and a: "case a of None \<Rightarrow> r1 = None | Some e \<Rightarrow> \<exists>m. r1 = handleError e m"
    by blast
  from a he have r1: "r1 = None" by (cases a) (auto simp: swallows_def)
  let ?w2 = "storage_deletePendingOperation (op_id p) w1"
  from Cons.prems d r1 have "drain handleError db ps ?w2 = (res, w')" by simp
  from Cons.IH [OF this] have res: "res = None" and
    po: "pending_operations w' =
           filter (\<lambda>q. op_id q \<notin> op_id ` set ps) (pending_operations ?w2)"
    by simp_all
  have "pending_operations w' =
          filter (\<lambda>q. op_id q \<notin> op_id ` set (p # ps)) (pending_operations w)"
    using po w1
    by (auto simp: storage_deletePendingOperation_def deletePendingOperation_def
        intro!: filter_cong)
  with res show ?case by simp
qed

lemma ex_sorted: "getPendingOperationsOrderedByTimestamp [ex_op_b, ex_op_a] = [ex_op_a, ex_op_b]"
  by (simp add: getPendingOperationsOrderedByTimestamp_def ex_op_a_def ex_op_b_def)

lemma op_fields [simp]:
  "op_type ex_op_a = Update" "op_type ex_op_b = Create"
  "op_table ex_op_a = ''y''" "op_table ex_op_b = ''x''"
  "op_data ex_op_a = [(''id'', ''7'')]" "op_data ex_op_b = [(''id'', ''8'')]"
  "op_id ex_op_a = ''a''" "op_id ex_op_b = ''b''"
  by (simp_all add: ex_op_a_def ex_op_b_def)

lemmas sync_eval = syncToRemote_def ex_sync_state_def dispatch_def createRemote_def
  updateRemote_def deleteRemote_def remote_write_def ex_db_def
  storage_deletePendingOperation_def deletePendingOperation_def request_of_def data_id_def

lemma ex_run_1:
  "syncToRemote ex_rethrow (ex_db 1 []) ex_sync_state =
     (Some ''network down'',
      ex_sync_state\<lparr>supabase := 2, pending_operations := [ex_op_b],
        sync_log := [Remote_write (request_of ex_op_a) None, Deleted_pending ''a'',
                     Remote_write (request_of ex_op_b) (Some ''network down'')]\<rparr>)"
  by (simp add: sync_eval ex_sorted ex_rethrow_def)

lemma ex_run_0:
  "syncToRemote ex_rethrow (ex_db 0 []) ex_sync_state =
     (Some ''network down'',
      ex_sync_state\<lparr>supabase := 1,
        sync_log := [Remote_write (request_of ex_op_a) (Some ''network down'')]\<rparr>)"
  by (simp add: sync_eval ex_sorted ex_rethrow_def)

lemma ex_run_swallow:
  "syncToRemote ex_swallow (ex_db 0 []) ex_sync_state =
     (None,
      ex_sync_state\<lparr>supabase := 2, pending_operations := [],
        sync_log := [Remote_write (request_of ex_op_a) (Some ''network down''), Deleted_pending ''a'',
                     Remote_write (request_of ex_op_b) (Some ''network down''), Deleted_pending ''b'']\<rparr>)"
  by (simp add: sync_eval ex_sorted ex_swallow_def)

lemma syncToRemote_rethrows:
  assumes he: "rethrows handleError"
      and run: "syncToRemote handleError db w = (res, w')"
  shows "\<exists>done rest tail.
      getPendingOperationsOrderedByTimestamp (pending_operations w) = done @ rest \<and>
      sync_log w' = sync_log w @ acked_log done @ tail \<and>
      pending_operations w' =
        filter (\<lambda>q. op_id q \<notin> op_id ` set done) (pending_operations w) \<and>
      ((rest = [] \<and> res = None \<and> tail = []) \<or>
       (\<exists>e. rest \<noteq> [] \<and> res \<noteq> None \<and>
            tail = [Remote_write (request_of (hd rest)) (Some e)]))"
proof -
  let ?ps = "getPendingOperationsOrderedByTimestamp (pending_operations w)"
  obtain r1 w1 where d: "drain handleError db ?ps w = (r1, w1)"
    by (cases "drain handleError db ?ps w")
  from run d have w': "w' = w1"
    by (auto simp: syncToRemote_def split: option.splits)
  from run d he have res: "res = None \<longleftrightarrow> r1 = None"
    by (auto simp: syncToRemote_def rethrows_def split: option.splits)
  from drain_rethrows [OF he d] res show ?thesis unfolding w' by blast
qed

text \<open>In a store keyed by id, the operations whose id is not among those of a part \<open>done\<close> of
  the stored operations are the stored operations outside \<open>done\<close>, the rest among them.\<close>

lemma kept_after_split:
  assumes dist: "distinct (map op_id ops)"
      and ps: "getPendingOperationsOrderedByTimestamp ops = dn @ rest"
  shows "filter (\<lambda>q. op_id q \<notin> op_id ` set dn) ops = filter (\<lambda>q. q \<notin> set dn) ops"
    and "set rest \<subseteq> set (filter (\<lambda>q. q \<notin> set dn) ops)"
proof -
  have set_ps: "set (dn @ rest) = set ops"
    using ps [symmetric] by (simp add: getPendingOperationsOrderedByTimestamp_def)
  have inj: "inj_on op_id (set ops)"
    using dist by (simp add: distinct_map)
  have dn_sub: "set dn \<subseteq> set ops" and rest_sub: "set rest \<subseteq> set ops"
    using set_ps by auto
  have "distinct (map op_id (getPendingOperationsOrderedByTimestamp ops))"
    using dist by (simp add: getPendingOperationsOrderedByTimestamp_def distinct_map inj_on_def)
  then have disj: "set dn \<inter> set rest = {}"
    unfolding ps by (auto simp: distinct_map)
  have key: "\<And>q. q \<in> set ops \<Longrightarrow> op_id q \<in> op_id ` set dn \<longleftrightarrow> q \<in> set dn"
    using inj dn_sub by (auto simp: inj_on_def)
  show "filter (\<lambda>q. op_id q \<notin> op_id ` set dn) ops = filter (\<lambda>q. q \<notin> set dn) ops"
    by (rule filter_cong) (auto simp: key)
  show "set rest \<subseteq> set (filter (\<lambda>q. q \<notin> set dn) ops)"
    using rest_sub disj by auto
qed

text \<open>
  With a handler that throws for every error, and a store keyed by id, a drain splits the
  operations, in timestamp order, into those done and the rest: the log is, for each done
  operation in order, its remote call acknowledged and then its deletion, followed by nothing
  when all are done and by the one failed call of the first of the rest otherwise; exactly the
  done operations have left the store; the failed operation and all after it are still stored
  and have had no further remote call, and the drain throws. With a handler that logs and
  returns, \<open>drain_swallows\<close> applies instead: every operation is deleted, acknowledged or
  not, and every operation is sent to the remote. Which of the two the repository's
  \<^verbatim>\<open>handleError\<close> is cannot be read off the sources.
\<close>

lemma syncToRemote_under_rethrowing_handler:
  assumes he: "rethrows handleError"
      and dist: "distinct (map op_id (pending_operations w))"
      and run: "syncToRemote handleError db w = (res, w')"
  shows "\<exists>done rest tail.
      getPendingOperationsOrderedByTimestamp (pending_operations w) = done @ rest \<and>
      sync_log w' = sync_log w @ acked_log done @ tail \<and>
      pending_operations w' = filter (\<lambda>q. q \<notin> set done) (pending_operations w) \<and>
      set rest \<subseteq> set (pending_operations w') \<and>
      ((rest = [] \<and> res = None \<and> tail = []) \<or>
       (\<exists>e. rest \<noteq> [] \<and> res \<noteq> None \<and>
            tail = [Remote_write (request_of (hd rest)) (Some e)]))"
proof -
  from syncToRemote_rethrows [OF he run] obtain dn rest tail where
    ps: "getPendingOperationsOrderedByTimestamp (pending_operations w) = dn @ rest" and
    lg: "sync_log w' = sync_log w @ acked_log dn @ tail" and
    po: "pending_operations w' =
           filter (\<lambda>q. op_id q \<notin> op_id ` set dn) (pending_operations w)" and
    fin: "(rest = [] \<and> res = None \<and> tail = []) \<or>
       (\<exists>e. rest \<noteq> [] \<and> res \<noteq> None \<and>
            tail = [Remote_write (request_of (hd rest)) (Some e)])"
    by blast
  have po': "pending_operations w' = filter (\<lambda>q. q \<notin> set dn) (pending_operations w)"
    using po kept_after_split(1) [OF dist ps] by simp
  have rest_in: "set rest \<subseteq> set (pending_operations w')"
    unfolding po' by (rule kept_after_split(2) [OF dist ps])
  from ps lg po' rest_in fin show ?thesis by blast
qed

lemma syncToRemote_under_logging_handler:
  assumes he: "swallows handleError"
      and run: "syncToRemote handleError db w = (res, w')"
  shows "res = None \<and> pending_operations w' = []"
proof -
  let ?ps = "getPendingOperationsOrderedByTimestamp (pending_operations w)"
  obtain r1 w1 where d: "drain handleError db ?ps w = (r1, w1)"
    by (cases "drain handleError db ?ps w")
  from drain_swallows [OF he d] have r1: "r1 = None" and
    po: "pending_operations w1 =
           filter (\<lambda>q. op_id q \<notin> op_id ` set ?ps) (pending_operations w)"
    by simp_all
  from run d r1 have "res = None" and w': "w' = w1"
    by (simp_all add: syncToRemote_def)
  moreover have "set ?ps = set (pending_operations w)"
    by (simp add: getPendingOperationsOrderedByTimestamp_def)
  then have "pending_operations w1 = []"
    unfolding po by (auto simp: filter_empty_conv)
  ultimately show ?thesis by simp
qed

lemma fold_put_row_frame:
  "data_id ` set rows \<subseteq> K \<Longrightarrow>
   filter (\<lambda>x. data_id x \<notin> K) (fold put_row rows rs) = filter (\<lambda>x. data_id x \<notin> K) rs"
proof (induction rows arbitrary: rs)
  case Nil
  then show ?case by simp
next
  case (Cons r rows)
  then have "filter (\<lambda>x. data_id x \<notin> K) (fold put_row rows (put_row r rs))
               = filter (\<lambda>x. data_id x \<notin> K) (put_row r rs)"
    by simp
  also have "\<dots> = filter (\<lambda>x. data_id x \<notin> K) rs"
    using Cons.prems by (auto simp: put_row_def intro!: filter_cong)
  finally show ?case by simp
qed

lemma fold_put_row_set: "set (fold put_row rows rs) \<subseteq> set rs \<union> set rows"
proof (induction rows arbitrary: rs)
  case Nil
  then show ?case by simp
next
  case (Cons r rows)
  have "set (put_row r rs) \<subseteq> set rs \<union> {r}" by (auto simp: put_row_def)
  with Cons [of "put_row r rs"] show ?case by auto
qed

text \<open>
  C8. \<^verbatim>\<open>syncFromRemote\<close> leaves every local row of the table whose primary key is not
  among the returned rows in place and in order, adds nothing but returned rows, and leaves
  every other table and the pending operations as they are, also when the query fails.
\<close>

theorem syncFromRemote_frame:
  assumes "syncFromRemote handleError db table orgId since w = (res, w')"
      and "db_select db (supabase w) table orgId (since_filter since) = (answer, r')"
  shows "filter (\<lambda>x. data_id x \<notin> data_id ` set (returned_rows answer)) (tables w' table)
           = filter (\<lambda>x. data_id x \<notin> data_id ` set (returned_rows answer)) (tables w table) \<and>
         set (tables w' table) \<subseteq> set (tables w table) \<union> set (returned_rows answer) \<and>
         (\<forall>t. t \<noteq> table \<longrightarrow> tables w' t = tables w t) \<and>
         pending_operations w' = pending_operations w"
proof (cases "case since_filter since of None \<Rightarrow> False | Some s \<Rightarrow> \<not> date_in_range s")
  case True
  with assms(1) have "w' = w" by (simp add: syncFromRemote_def)
  then show ?thesis by simp
next
  case False
  with assms have run:
    "(let w1 = w\<lparr>supabase := r',
                 sync_log := sync_log w @ [Remote_select table orgId (since_filter since)]\<rparr>
      in case answer of
           Inl e \<Rightarrow> (handleError e (''Failed to sync '' @ table @ '' from remote''), w1)
         | Inr None \<Rightarrow> (None, w1)
         | Inr (Some rows) \<Rightarrow>
             if length rows > 0 then (None, bulkSave table rows w1) else (None, w1))
       = (res, w')"
    by (simp add: syncFromRemote_def)
  show ?thesis
  proof (cases answer)
    case (Inl e)
    with run show ?thesis by auto
  next
    case (Inr data)
    show ?thesis
    proof (cases data)
      case None
      with Inr run show ?thesis by auto
    next
      case (Some rows)
      show ?thesis
      proof (cases "rows = []")
        case True
        with Some Inr run show ?thesis by auto
      next
        case nonempty: False
        with Some Inr run
        have w': "w' = bulkSave table rows
                    (w\<lparr>supabase := r',
                       sync_log := sync_log w @ [Remote_select table orgId (since_filter since)]\<rparr>)"
          by auto
        have rr: "returned_rows answer = rows" using Some Inr by (simp add: returned_rows_def)
        have t: "tables w' table = fold put_row rows (tables w table)"
          by (simp add: w' bulkSave_def)
        have o: "\<forall>t. t \<noteq> table \<longrightarrow> tables w' t = tables w t"
          by (simp add: w' bulkSave_def)
        have p: "pending_operations w' = pending_operations w"
          by (simp add: w' bulkSave_def)
        show ?thesis
          using fold_put_row_frame [of rows "data_id ` set rows" "tables w table"]
            fold_put_row_set [of rows "tables w table"] o p
          by (simp add: rr t)
      qed
    qed
  qed
qed

lemma ex_pull:
  "syncFromRemote ex_rethrow (ex_db 0 [[(''id'', ''1''), (''v'', ''new'')]]) ''samples'' ''org'' None
      ex_sync_state =
   (None, ex_sync_state\<lparr>supabase := 1,
      tables := (tables ex_sync_state)(''samples'' :=
         [[(''id'', ''2''), (''v'', ''kept'')], [(''id'', ''1''), (''v'', ''new'')]]),
      sync_log := [Remote_select ''samples'' ''org'' None]\<rparr>)"
  by (simp add: syncFromRemote_def ex_db_def ex_sync_state_def since_filter_def bulkSave_def
      put_row_def data_id_def)

theorem syncFromRemote_frame_witness:
  "syncFromRemote ex_rethrow (ex_db 0 [[(''id'', ''1''), (''v'', ''new'')]]) ''samples'' ''org'' None
      ex_sync_state =
   (None, ex_sync_state\<lparr>supabase := 1,
      tables := (tables ex_sync_state)(''samples'' :=
         [[(''id'', ''2''), (''v'', ''kept'')], [(''id'', ''1''), (''v'', ''new'')]]),
      sync_log := [Remote_select ''samples'' ''org'' None]\<rparr>) \<and>
   db_select (ex_db 0 [[(''id'', ''1''), (''v'', ''new'')]]) (supabase ex_sync_state) ''samples''
      ''org'' (since_filter None) = (Inr (Some [[(''id'', ''1''), (''v'', ''new'')]]), 1) \<and>
   ''other'' \<noteq> ''samples'' \<and>
   filter (\<lambda>x. data_id x \<notin> data_id ` set [[(''id'', ''1''), (''v'', ''new'')]])
      [[(''id'', ''2''), (''v'', ''kept'')], [(''id'', ''1''), (''v'', ''new'')]]
     = filter (\<lambda>x. data_id x \<notin> data_id ` set [[(''id'', ''1''), (''v'', ''new'')]])
         (tables ex_sync_state ''samples'')"
proof -
  note h1 = ex_pull
  have h2: "db_select (ex_db 0 [[(''id'', ''1''), (''v'', ''new'')]]) (supabase ex_sync_state)
      ''samples'' ''org'' (since_filter None) = (Inr (Some [[(''id'', ''1''), (''v'', ''new'')]]), 1)"
    by (simp add: ex_db_def ex_sync_state_def since_filter_def)
  have h3: "''other'' \<noteq> ''samples''" by simp
  from syncFromRemote_frame [OF h1 h2]
  have "filter (\<lambda>x. data_id x \<notin> data_id ` set [[(''id'', ''1''), (''v'', ''new'')]])
      [[(''id'', ''2''), (''v'', ''kept'')], [(''id'', ''1''), (''v'', ''new'')]]
     = filter (\<lambda>x. data_id x \<notin> data_id ` set [[(''id'', ''1''), (''v'', ''new'')]])
         (tables ex_sync_state ''samples'')"
    by (simp add: returned_rows_def)
  with h1 h2 h3 show ?thesis by blast
qed

section \<open>Properties of the upload hook\<close>

lemma lists_made_append [simp]: "lists_made (xs @ ys) = lists_made xs @ lists_made ys"
  by (induction xs rule: lists_made.induct) auto

lemma uploads_attempted_append [simp]:
  "uploads_attempted (xs @ ys) = uploads_attempted xs @ uploads_attempted ys"
  by (induction xs rule: uploads_attempted.induct) auto

lemma snackbars_append [simp]: "snackbars (xs @ ys) = snackbars xs @ snackbars ys"
  by (induction xs rule: snackbars.induct) auto

lemma fileExists_effect:
  assumes "fileExists connector p w = (ex, w1)"
  shows "pending_uploads w1 = pending_uploads w \<and> uuids_drawn w1 = uuids_drawn w \<and>
         snackbars (ui_log w1) = snackbars (ui_log w) \<and>
         uploads_attempted (ui_log w1) = uploads_attempted (ui_log w) \<and>
         lists_made (ui_log w1) = lists_made (ui_log w) @
           (if connector = None then [] else [(''processed-data'', p)])"
  using assms
  by (auto simp: fileExists_def getStorageClient_def Let_def
      split: option.splits prod.splits sum.splits)

lemma uploadFile_effect:
  assumes "uploadFile connector f p b w = (up, w1)"
  shows "pending_uploads w1 = pending_uploads w \<and> uuids_drawn w1 = uuids_drawn w \<and>
         snackbars (ui_log w1) = snackbars (ui_log w) \<and>
         lists_made (ui_log w1) = lists_made (ui_log w) \<and>
         uploads_attempted (ui_log w1) = uploads_attempted (ui_log w) @
           (if connector = None then [] else [(b, p, f)])"
  using assms
  by (auto simp: uploadFile_def getStorageClient_def Let_def
      split: option.splits prod.splits sum.splits)

text \<open>What one pass of the loop body of the drain does, read off the log and the queue.\<close>

lemma processUploadTask_effect:
  assumes fe: "fileExists connector (task_path t) w = (ex, w1)"
      and up: "uploadFile connector (task_file t) (task_path t) (task_bucket t) w1 = (res, w2)"
  shows "snackbars (ui_log (processUploadTask connector t w)) = snackbars (ui_log w) @
           [if ex then (Already_exists_removed (file_name (task_file t)), VInfo)
            else if isl res then
              (if task_retries t < 3
               then (Retrying_upload (file_name (task_file t)) (task_retries t + 1), VWarning)
               else (Max_retries_exceeded (file_name (task_file t)), VError))
            else (Successfully_uploaded (file_name (task_file t)), VSuccess)]"
    and "uploads_attempted (ui_log (processUploadTask connector t w)) =
           uploads_attempted (ui_log w) @
           (if ex \<or> connector = None then []
            else [(task_bucket t, task_path t, task_file t)])"
    and "lists_made (ui_log (processUploadTask connector t w)) =
           lists_made (ui_log w) @
           (if connector = None then [] else [(''processed-data'', task_path t)])"
    and "pending_uploads (processUploadTask connector t w) =
           (if \<not> ex \<and> isl res \<and> task_retries t < 3
            then pending_uploads
                   (updateQueueItem (t\<lparr>task_retries := task_retries t + 1\<rparr>) w)
            else filter (\<lambda>u. task_id u \<noteq> task_id t) (pending_uploads w))"
  using fileExists_effect [OF fe] uploadFile_effect [OF up] fe up
  by (auto simp: processUploadTask_def enqueueSnackbar_def removeFromQueue_def
      updateQueueItem_def split: sum.splits)


lemma uploadOne_effect:
  assumes fe: "fileExists connector (basePath @ ''/'' @ file_name f) w = (ex, w1)"
      and up: "uploadFile connector f (basePath @ ''/'' @ file_name f) b w1 = (res, w2)"
  shows "fst (uploadOne isOnline connector uuidv4 basePath b onP tot f (paths, n, w))
           = paths @ [basePath @ ''/'' @ file_name f]"
    and "fst (snd (uploadOne isOnline connector uuidv4 basePath b onP tot f (paths, n, w)))
           = n + 1"
    and "lists_made (ui_log (snd (snd
            (uploadOne isOnline connector uuidv4 basePath b onP tot f (paths, n, w)))))
           = lists_made (ui_log w) @
             (if isOnline \<and> connector \<noteq> None
              then [(''processed-data'', basePath @ ''/'' @ file_name f)] else [])"
    and "uploads_attempted (ui_log (snd (snd
            (uploadOne isOnline connector uuidv4 basePath b onP tot f (paths, n, w)))))
           = uploads_attempted (ui_log w) @
             (if isOnline \<and> \<not> ex \<and> connector \<noteq> None
              then [(b, basePath @ ''/'' @ file_name f, f)] else [])"
    and "snackbars (ui_log (snd (snd
            (uploadOne isOnline connector uuidv4 basePath b onP tot f (paths, n, w)))))
           = snackbars (ui_log w) @
             (if \<not> isOnline then [(Queued_upload_offline (file_name f), VInfo)]
              else if ex then [(Already_exists_skipping (file_name f), VInfo)]
              else if isl res then [(Queued_upload (file_name f), VWarning)]
              else [])"
    and "pending_uploads (snd (snd
            (uploadOne isOnline connector uuidv4 basePath b onP tot f (paths, n, w))))
           = pending_uploads w @
             (if \<not> isOnline \<or> (\<not> ex \<and> isl res)
              then [queued_task (uuidv4 (uuids_drawn w)) f (basePath @ ''/'' @ file_name f) b]
              else [])"
  using fileExists_effect [OF fe] uploadFile_effect [OF up] fe up
  by (auto simp: uploadOne_def Let_def enqueueSnackbar_def onProgress_call_def
      queue_new_task_def addToQueue_def split: sum.splits)



lemma filter_remote_onProgress:
  "filter is_remote_call (ui_log (onProgress_call onP n t w)) = filter is_remote_call (ui_log w)"
  by (simp add: onProgress_call_def)

lemma uploadOne_offline:
  "uploadOne False connector uuidv4 basePath b onP tot f (paths, n, w) = (paths', n', w') \<Longrightarrow>
     paths' = paths @ [basePath @ ''/'' @ file_name f] \<and> n' = n + 1 \<and>
     pending_uploads w' = pending_uploads w @
       [queued_task (uuidv4 (uuids_drawn w)) f (basePath @ ''/'' @ file_name f) b] \<and>
     uuids_drawn w' = Suc (uuids_drawn w) \<and>
     storage_remote w' = storage_remote w \<and>
     filter is_remote_call (ui_log w') = filter is_remote_call (ui_log w)"
  by (auto simp: uploadOne_def Let_def queue_new_task_def addToQueue_def enqueueSnackbar_def
      onProgress_call_def)

lemma fold_uploadOne_offline:
  "fold (uploadOne False connector uuidv4 basePath b onP tot) files (paths, n, w) = (paths', n', w')
   \<Longrightarrow>
     paths' = paths @ map (\<lambda>f. basePath @ ''/'' @ file_name f) files \<and>
     n' = n + length files \<and>
     pending_uploads w' =
       pending_uploads w @
       map (\<lambda>kf. queued_task (uuidv4 (fst kf)) (snd kf) (basePath @ ''/'' @ file_name (snd kf)) b)
         (enumerate (uuids_drawn w) files) \<and>
     uuids_drawn w' = uuids_drawn w + length files \<and>
     storage_remote w' = storage_remote w \<and>
     filter is_remote_call (ui_log w') = filter is_remote_call (ui_log w)"
proof (induction files arbitrary: paths n w)
  case Nil
  then show ?case by simp
next
  case (Cons f files)
  obtain p1 n1 w1 where
    one: "uploadOne False connector uuidv4 basePath b onP tot f (paths, n, w) = (p1, n1, w1)"
    by (metis prod_cases3)
  from Cons.prems one
  have rest: "fold (uploadOne False connector uuidv4 basePath b onP tot) files (p1, n1, w1)
                = (paths', n', w')"
    by simp
  from uploadOne_offline [OF one] Cons.IH [OF rest] show ?case by simp
qed

text \<open>
  C5. Offline, \<^verbatim>\<open>uploadFiles\<close> returns the path \<^verbatim>\<open>basePath/file.name\<close> of every file in
  input order, appends to the queue one task for each file, in order, with the uuid drawn for
  it, retries 0, status queued and progress 0, so the queue grows by exactly the number of
  files; it makes no remote call: the remote calls in the log and the remote state are the
  ones from before.
\<close>

theorem uploadFiles_offline:
  "fst (uploadFiles False connector uuidv4 files basePath b onProgress w)
     = map (\<lambda>f. basePath @ ''/'' @ file_name f) files \<and>
   pending_uploads (snd (uploadFiles False connector uuidv4 files basePath b onProgress w))
     = pending_uploads w @
       map (\<lambda>kf. \<lparr>task_id = uuidv4 (fst kf), task_file = snd kf,
                   task_path = basePath @ ''/'' @ file_name (snd kf), task_bucket = b,
                   task_retries = 0, task_status = Queued, task_progress = 0\<rparr>)
         (enumerate (uuids_drawn w) files) \<and>
   length (pending_uploads (snd (uploadFiles False connector uuidv4 files basePath b onProgress w)))
     = length (pending_uploads w) + length files \<and>
   filter is_remote_call
       (ui_log (snd (uploadFiles False connector uuidv4 files basePath b onProgress w)))
     = filter is_remote_call (ui_log w) \<and>
   storage_remote (snd (uploadFiles False connector uuidv4 files basePath b onProgress w))
     = storage_remote w"
proof -
  obtain p1 n1 w1 where
    f: "fold (uploadOne False connector uuidv4 basePath b onProgress (length files)) files
          ([], 0, w) = (p1, n1, w1)"
    by (metis prod_cases3)
  then have u: "uploadFiles False connector uuidv4 files basePath b onProgress w = (p1, w1)"
    by (simp add: uploadFiles_def)
  from fold_uploadOne_offline [OF f] show ?thesis by (simp add: u queued_task_def)
qed

lemmas upload_eval = processUploadQueue_def getAllQueuedUploads_def processUploadTask_def
  fileExists_def uploadFile_def getStorageClient_def enqueueSnackbar_def removeFromQueue_def
  updateQueueItem_def uploadFiles_def uploadOne_def onProgress_call_def queue_new_task_def
  queued_task_def addToQueue_def ex_storage_def ex_upload_state_def ex_task_def ex_file_def
  ex_file2_def ex_uuidv4_def check_fails_def Let_def

theorem uploadFiles_offline_witness:
  "uploadFiles False (Some (ex_storage False False)) ex_uuidv4 [ex_file, ex_file2] ''org''
      ''raw-data'' True (ex_upload_state [] [])
     = ([''org/reads.fastq'', ''org/report.json''],
        \<lparr>storage_remote = [],
         pending_uploads =
           [\<lparr>task_id = ''u'', task_file = ex_file, task_path = ''org/reads.fastq'',
             task_bucket = ''raw-data'', task_retries = 0, task_status = Queued,
             task_progress = 0\<rparr>,
            \<lparr>task_id = ''uu'', task_file = ex_file2, task_path = ''org/report.json'',
             task_bucket = ''raw-data'', task_retries = 0, task_status = Queued,
             task_progress = 0\<rparr>],
         uuids_drawn = 2,
         ui_log = [Snackbar (Queued_upload_offline ''reads.fastq'') VInfo, Progress 1 2,
                   Snackbar (Queued_upload_offline ''report.json'') VInfo, Progress 2 2]\<rparr>) \<and>
   length (pending_uploads (snd (uploadFiles False (Some (ex_storage False False)) ex_uuidv4
      [ex_file, ex_file2] ''org'' ''raw-data'' True (ex_upload_state [] [])))) = 2"
proof -
  have e: "uploadFiles False (Some (ex_storage False False)) ex_uuidv4 [ex_file, ex_file2] ''org''
      ''raw-data'' True (ex_upload_state [] [])
     = ([''org/reads.fastq'', ''org/report.json''],
        \<lparr>storage_remote = [],
         pending_uploads =
           [\<lparr>task_id = ''u'', task_file = ex_file, task_path = ''org/reads.fastq'',
             task_bucket = ''raw-data'', task_retries = 0, task_status = Queued,
             task_progress = 0\<rparr>,
            \<lparr>task_id = ''uu'', task_file = ex_file2, task_path = ''org/report.json'',
             task_bucket = ''raw-data'', task_retries = 0, task_status = Queued,
             task_progress = 0\<rparr>],
         uuids_drawn = 2,
         ui_log = [Snackbar (Queued_upload_offline ''reads.fastq'') VInfo, Progress 1 2,
                   Snackbar (Queued_upload_offline ''report.json'') VInfo, Progress 2 2]\<rparr>)"
    by (simp add: upload_eval)
  have "length (pending_uploads (snd (uploadFiles False (Some (ex_storage False False)) ex_uuidv4
      [ex_file, ex_file2] ''org'' ''raw-data'' True (ex_upload_state [] [])))) = 2"
    using uploadFiles_offline [of "Some (ex_storage False False)" ex_uuidv4 "[ex_file, ex_file2]"
        "''org''" "''raw-data''" True "ex_upload_state [] []"]
    by (simp add: ex_upload_state_def)
  with e show ?thesis by blast
qed











lemma processUploadTask_files:
  "map (\<lambda>x. message_file (fst x)) (snackbars (ui_log (processUploadTask connector t w)))
     = map (\<lambda>x. message_file (fst x)) (snackbars (ui_log w)) @ [file_name (task_file t)]"
proof -
  obtain ex w1 where fe: "fileExists connector (task_path t) w = (ex, w1)"
    by (cases "fileExists connector (task_path t) w")
  obtain res w2 where
    up: "uploadFile connector (task_file t) (task_path t) (task_bucket t) w1 = (res, w2)"
    by (cases "uploadFile connector (task_file t) (task_path t) (task_bucket t) w1")
  show ?thesis
    unfolding processUploadTask_effect(1) [OF fe up] by simp
qed

lemma processUploadTask_lists:
  "lists_made (ui_log (processUploadTask connector t w)) =
           lists_made (ui_log w) @
           (if connector = None then [] else [(''processed-data'', task_path t)])"
proof -
  obtain ex w1 where fe: "fileExists connector (task_path t) w = (ex, w1)"
    by (cases "fileExists connector (task_path t) w")
  obtain res w2 where
    up: "uploadFile connector (task_file t) (task_path t) (task_bucket t) w1 = (res, w2)"
    by (cases "uploadFile connector (task_file t) (task_path t) (task_bucket t) w1")
  show ?thesis by (rule processUploadTask_effect(3) [OF fe up])
qed

lemma fold_processUploadTask_files:
  "map (\<lambda>x. message_file (fst x)) (snackbars (ui_log (fold (processUploadTask connector) ts w)))
     = map (\<lambda>x. message_file (fst x)) (snackbars (ui_log w))
       @ map (\<lambda>t. file_name (task_file t)) ts"
  by (induction ts arbitrary: w) (simp_all add: processUploadTask_files)

lemma fold_processUploadTask_lists:
  "lists_made (ui_log (fold (processUploadTask connector) ts w)) =
     lists_made (ui_log w) @
     (if connector = None then [] else map (\<lambda>t. (''processed-data'', task_path t)) ts)"
  by (induction ts arbitrary: w) (simp_all add: processUploadTask_lists)




lemma fileExists_decision:
  "fst (fileExists connector p w) =
     (case connector of
        None \<Rightarrow> False
      | Some api \<Rightarrow>
          (case fst (storage_list api (storage_remote w) ''processed-data'' p) of
             Inl e \<Rightarrow> False
           | Inr entries \<Rightarrow> entries \<noteq> []))"
  by (auto simp: fileExists_def getStorageClient_def Let_def
      split: option.splits prod.splits sum.splits)


text \<open>
  C7. For every path, when the existence check fails (no connector, or the listing is
  answered with an error), \<^verbatim>\<open>fileExists\<close> returns false. Both callers then go on to upload:
  when the path is that of a queued task, the drain attempts the upload of the task and
  notifies its outcome, never ``already exists''; when it is the path derived for a file,
  \<^verbatim>\<open>uploadFiles\<close> attempts the upload of the file and queues it if that fails, never
  skipping it. Without a connector the upload itself throws before any remote call.
\<close>

theorem fileExists_fail_open:
  assumes cf: "check_fails connector p w"
  shows "fst (fileExists connector p w) = False \<and>
         (task_path t = p \<longrightarrow>
            uploads_attempted (ui_log (processUploadTask connector t w))
              = uploads_attempted (ui_log w) @
                (if connector = None then [] else [(task_bucket t, p, task_file t)]) \<and>
            snackbars (ui_log (processUploadTask connector t w)) = snackbars (ui_log w) @
              [if isl (fst (uploadFile connector (task_file t) p (task_bucket t)
                             (snd (fileExists connector p w))))
               then
                 (if task_retries t < 3
                  then (Retrying_upload (file_name (task_file t)) (task_retries t + 1), VWarning)
                  else (Max_retries_exceeded (file_name (task_file t)), VError))
               else (Successfully_uploaded (file_name (task_file t)), VSuccess)]) \<and>
         (basePath @ ''/'' @ file_name f = p \<longrightarrow>
            uploads_attempted (ui_log (snd (snd
               (uploadOne True connector gen basePath b onP tot f (paths, n, w)))))
              = uploads_attempted (ui_log w) @ (if connector = None then [] else [(b, p, f)]) \<and>
            snackbars (ui_log (snd (snd
               (uploadOne True connector gen basePath b onP tot f (paths, n, w)))))
              = snackbars (ui_log w) @
                (if isl (fst (uploadFile connector f p b (snd (fileExists connector p w))))
                 then [(Queued_upload (file_name f), VWarning)] else []))"
proof -
  have ex: "fst (fileExists connector p w) = False"
    using cf by (auto simp: check_fails_def fileExists_decision split: option.splits sum.splits)
  then obtain w1 where fe: "fileExists connector p w = (False, w1)"
    by (cases "fileExists connector p w") auto
  then have w1: "snd (fileExists connector p w) = w1" by simp
  obtain rest w3 where
    ut: "uploadFile connector (task_file t) p (task_bucket t) w1 = (rest, w3)"
    by (cases "uploadFile connector (task_file t) p (task_bucket t) w1")
  obtain res w2 where up: "uploadFile connector f p b w1 = (res, w2)"
    by (cases "uploadFile connector f p b w1")
  have drain_part: "task_path t = p \<longrightarrow>
            uploads_attempted (ui_log (processUploadTask connector t w))
              = uploads_attempted (ui_log w) @
                (if connector = None then [] else [(task_bucket t, p, task_file t)]) \<and>
            snackbars (ui_log (processUploadTask connector t w)) = snackbars (ui_log w) @
              [if isl (fst (uploadFile connector (task_file t) p (task_bucket t)
                             (snd (fileExists connector p w))))
               then
                 (if task_retries t < 3
                  then (Retrying_upload (file_name (task_file t)) (task_retries t + 1), VWarning)
                  else (Max_retries_exceeded (file_name (task_file t)), VError))
               else (Successfully_uploaded (file_name (task_file t)), VSuccess)]"
  proof
    assume tp: "task_path t = p"
    have fe_t: "fileExists connector (task_path t) w = (False, w1)" using fe tp by simp
    have up_t: "uploadFile connector (task_file t) (task_path t) (task_bucket t) w1 = (rest, w3)"
      using ut tp by simp
    have 1: "uploads_attempted (ui_log (processUploadTask connector t w))
             = uploads_attempted (ui_log w) @
               (if connector = None then [] else [(task_bucket t, p, task_file t)])"
      using processUploadTask_effect(2) [OF fe_t up_t] tp by simp
    have 2: "snackbars (ui_log (processUploadTask connector t w)) = snackbars (ui_log w) @
             [if isl (fst (uploadFile connector (task_file t) p (task_bucket t)
                            (snd (fileExists connector p w))))
              then
                (if task_retries t < 3
                 then (Retrying_upload (file_name (task_file t)) (task_retries t + 1), VWarning)
                 else (Max_retries_exceeded (file_name (task_file t)), VError))
              else (Successfully_uploaded (file_name (task_file t)), VSuccess)]"
      using processUploadTask_effect(1) [OF fe_t up_t] by (simp add: w1 ut)
    from 1 2 show "uploads_attempted (ui_log (processUploadTask connector t w))
              = uploads_attempted (ui_log w) @
                (if connector = None then [] else [(task_bucket t, p, task_file t)]) \<and>
            snackbars (ui_log (processUploadTask connector t w)) = snackbars (ui_log w) @
              [if isl (fst (uploadFile connector (task_file t) p (task_bucket t)
                             (snd (fileExists connector p w))))
               then
                 (if task_retries t < 3
                  then (Retrying_upload (file_name (task_file t)) (task_retries t + 1), VWarning)
                  else (Max_retries_exceeded (file_name (task_file t)), VError))
               else (Successfully_uploaded (file_name (task_file t)), VSuccess)]"
      by blast
  qed
  have files_part: "basePath @ ''/'' @ file_name f = p \<longrightarrow>
            uploads_attempted (ui_log (snd (snd
               (uploadOne True connector gen basePath b onP tot f (paths, n, w)))))
              = uploads_attempted (ui_log w) @ (if connector = None then [] else [(b, p, f)]) \<and>
            snackbars (ui_log (snd (snd
               (uploadOne True connector gen basePath b onP tot f (paths, n, w)))))
              = snackbars (ui_log w) @
                (if isl (fst (uploadFile connector f p b (snd (fileExists connector p w))))
                 then [(Queued_upload (file_name f), VWarning)] else [])"
  proof
    assume fp: "basePath @ ''/'' @ file_name f = p"
    have fe_f: "fileExists connector (basePath @ ''/'' @ file_name f) w = (False, w1)"
      using fe fp by simp
    have up_f: "uploadFile connector f (basePath @ ''/'' @ file_name f) b w1 = (res, w2)"
      using up fp by simp
    have 3: "uploads_attempted (ui_log (snd (snd
              (uploadOne True connector gen basePath b onP tot f (paths, n, w)))))
             = uploads_attempted (ui_log w) @ (if connector = None then [] else [(b, p, f)])"
      using uploadOne_effect(4) [OF fe_f up_f, of True gen onP tot paths n] fp by simp
    have 4: "snackbars (ui_log (snd (snd
              (uploadOne True connector gen basePath b onP tot f (paths, n, w)))))
             = snackbars (ui_log w) @
               (if isl (fst (uploadFile connector f p b (snd (fileExists connector p w))))
                then [(Queued_upload (file_name f), VWarning)] else [])"
      using uploadOne_effect(5) [OF fe_f up_f, of True gen onP tot paths n]
      by (simp add: w1 up)
    from 3 4 show "uploads_attempted (ui_log (snd (snd
               (uploadOne True connector gen basePath b onP tot f (paths, n, w)))))
              = uploads_attempted (ui_log w) @ (if connector = None then [] else [(b, p, f)]) \<and>
            snackbars (ui_log (snd (snd
               (uploadOne True connector gen basePath b onP tot f (paths, n, w)))))
              = snackbars (ui_log w) @
                (if isl (fst (uploadFile connector f p b (snd (fileExists connector p w))))
                 then [(Queued_upload (file_name f), VWarning)] else [])"
      by blast
  qed
  from ex drain_part files_part show ?thesis by blast
qed

theorem fileExists_fail_open_witness:
  "check_fails (Some (ex_storage True False)) ''org/reads.fastq''
     (ex_upload_state [(''processed-data'', ''org/reads.fastq'')] []) \<and>
   fst (fileExists (Some (ex_storage True False)) ''org/reads.fastq''
     (ex_upload_state [(''processed-data'', ''org/reads.fastq'')] [])) = False \<and>
   check_fails (Some (ex_storage True False)) ''abc''
     (ex_upload_state [(''processed-data'', ''abc'')] []) \<and>
   fst (fileExists (Some (ex_storage True False)) ''abc''
     (ex_upload_state [(''processed-data'', ''abc'')] [])) = False \<and>
   task_path (ex_task ''t1'' ex_file 1) = ''org/reads.fastq'' \<and>
   ''org'' @ ''/'' @ file_name ex_file = ''org/reads.fastq'' \<and>
   uploads_attempted (ui_log (processUploadTask (Some (ex_storage True False))
       (ex_task ''t1'' ex_file 1)
       (ex_upload_state [(''processed-data'', ''org/reads.fastq'')] [])))
     = [(''raw-data'', ''org/reads.fastq'', ex_file)] \<and>
   uploads_attempted (ui_log (snd (snd
       (uploadOne True (Some (ex_storage True False)) ex_uuidv4 ''org'' ''processed-data'' False 1
          ex_file ([], 0, ex_upload_state [(''processed-data'', ''org/reads.fastq'')] [])))))
     = [(''processed-data'', ''org/reads.fastq'', ex_file)]"
proof -
  let ?w = "ex_upload_state [(''processed-data'', ''org/reads.fastq'')] []"
  let ?v = "ex_upload_state [(''processed-data'', ''abc'')] []"
  have h1: "check_fails (Some (ex_storage True False)) ''org/reads.fastq'' ?w"
    by (simp add: check_fails_def ex_storage_def)
  have h1': "check_fails (Some (ex_storage True False)) ''abc'' ?v"
    by (simp add: check_fails_def ex_storage_def)
  have h2: "task_path (ex_task ''t1'' ex_file 1) = ''org/reads.fastq''"
    by (simp add: ex_task_def ex_file_def)
  have h3: "''org'' @ ''/'' @ file_name ex_file = ''org/reads.fastq''"
    by (simp add: ex_file_def)
  have a: "fst (fileExists (Some (ex_storage True False)) ''abc'' ?v) = False"
    using fileExists_fail_open [OF h1'] by blast
  from fileExists_fail_open [where b = "''processed-data''" and gen = ex_uuidv4
      and onP = False and tot = 1 and paths = "[]" and n = 0 and basePath = "''org''"
      and f = ex_file and t = "ex_task ''t1'' ex_file 1", OF h1] h2 h3
  have "fst (fileExists (Some (ex_storage True False)) ''org/reads.fastq'' ?w) = False \<and>
        uploads_attempted (ui_log (processUploadTask (Some (ex_storage True False))
            (ex_task ''t1'' ex_file 1) ?w))
          = [(''raw-data'', ''org/reads.fastq'', ex_file)] \<and>
        uploads_attempted (ui_log (snd (snd
            (uploadOne True (Some (ex_storage True False)) ex_uuidv4 ''org'' ''processed-data''
               False 1 ex_file ([], 0, ?w)))))
          = [(''processed-data'', ''org/reads.fastq'', ex_file)]"
    by (simp add: ex_upload_state_def ex_task_def)
  with h1 h1' h2 h3 a show ?thesis by blast
qed





text \<open>
  In \<^verbatim>\<open>processUploadQueue\<close> a failure while processing one queued upload does not end the
  drain: whatever fails, every task of the queue has its existence check and its one
  notification, in queue order, in the same drain.
\<close>

lemma upload_drain_processes_every_task:
  "map (\<lambda>x. message_file (fst x)) (snackbars (ui_log (processUploadQueue True connector w)))
     = map (\<lambda>x. message_file (fst x)) (snackbars (ui_log w))
       @ map (\<lambda>t. file_name (task_file t)) (pending_uploads w) \<and>
   lists_made (ui_log (processUploadQueue True connector w))
     = lists_made (ui_log w) @
       (if connector = None then []
        else map (\<lambda>t. (''processed-data'', task_path t)) (pending_uploads w))"
  by (simp add: processUploadQueue_def getAllQueuedUploads_def fold_processUploadTask_files
      fold_processUploadTask_lists)

section \<open>Properties of the Auth/Session Cache\<close>

lemma getSession_remote_first:
  "auth_log (snd (getSession api w)) = auth_log w @ [Fetch_session] \<and>
   (case fetched (fst (auth_getSession api (auth_remote w))) of
      Some s \<Rightarrow> fst (getSession api w) = Some s \<and>
                session_slot (snd (getSession api w)) = Some s
    | None \<Rightarrow> fst (getSession api w) = session_slot w \<and>
              session_slot (snd (getSession api w)) = session_slot w)"
  by (auto simp: getSession_def fetched_def storage_getSession_def storage_saveSession_def Let_def
      split: prod.splits sum.splits option.splits)

lemma getCurrentUser_remote_first:
  "auth_log (snd (getCurrentUser api w)) = auth_log w @ [Fetch_user] \<and>
   (case fetched (fst (auth_getUser api (auth_remote w))) of
      Some u \<Rightarrow> fst (getCurrentUser api w) = Some (currentUser_of u) \<and>
                user_slot (snd (getCurrentUser api w)) = Some (currentUser_of u)
    | None \<Rightarrow> fst (getCurrentUser api w) = user_slot w \<and>
              user_slot (snd (getCurrentUser api w)) = user_slot w)"
  by (auto simp: getCurrentUser_def fetched_def storage_getUser_def storage_saveUser_def Let_def
      split: prod.splits sum.splits option.splits)

lemma getUserProfile_local_first:
  "(case user_profiles w userId of
      Some localProfile \<Rightarrow> getUserProfile api userId w = (Inr localProfile, w)
    | None \<Rightarrow>
        auth_log (snd (getUserProfile api userId w)) = auth_log w @ [Fetch_profile userId] \<and>
        (case fetched (fst (select_profile api (auth_remote w) userId)) of
           Some p \<Rightarrow> fst (getUserProfile api userId w) = Inr p \<and>
                     user_profiles (snd (getUserProfile api userId w))
                       = (user_profiles w)(profile_id p \<mapsto> p)
         | None \<Rightarrow> isl (fst (getUserProfile api userId w)) \<and>
                   user_profiles (snd (getUserProfile api userId w)) = user_profiles w))"
  by (auto simp: getUserProfile_def fetched_def storage_getUserProfile_def
      storage_saveUserProfile_def Let_def split: prod.splits sum.splits option.splits)

lemma getOrganization_local_first:
  "(case organizations w orgId of
      Some localOrg \<Rightarrow> getOrganization api orgId w = (Inr localOrg, w)
    | None \<Rightarrow>
        auth_log (snd (getOrganization api orgId w)) = auth_log w @ [Fetch_organization orgId] \<and>
        (case fetched (fst (select_organization api (auth_remote w) orgId)) of
           Some organization \<Rightarrow>
             fst (getOrganization api orgId w) = Inr organization \<and>
             organizations (snd (getOrganization api orgId w))
               = (organizations w)(org_id organization \<mapsto> organization)
         | None \<Rightarrow> isl (fst (getOrganization api orgId w)) \<and>
                   organizations (snd (getOrganization api orgId w)) = organizations w))"
  by (auto simp: getOrganization_def fetched_def storage_getOrganization_def
      storage_saveOrganization_def Let_def split: prod.splits sum.splits option.splits)

text \<open>
  C6 (as amended). \<^verbatim>\<open>getSession\<close> and \<^verbatim>\<open>getCurrentUser\<close> always ask the remote first
  (there is no online check); when the answer carries data and no error it is returned and
  overwrites the local slot, otherwise the local slot is returned and left as it is.
  \<^verbatim>\<open>getUserProfile\<close> and \<^verbatim>\<open>getOrganization\<close> read the local mirror first: an entry
  found there is returned without any remote call and without any change; only when there is
  none is the remote asked, and then data without error is returned and stored under its id,
  and anything else is thrown with the mirror left as it is.
\<close>

theorem auth_cache_reads:
  "(auth_log (snd (getSession api w)) = auth_log w @ [Fetch_session] \<and>
    (case fetched (fst (auth_getSession api (auth_remote w))) of
       Some s \<Rightarrow> fst (getSession api w) = Some s \<and>
                 session_slot (snd (getSession api w)) = Some s
     | None \<Rightarrow> fst (getSession api w) = session_slot w \<and>
               session_slot (snd (getSession api w)) = session_slot w)) \<and>
   (auth_log (snd (getCurrentUser api w)) = auth_log w @ [Fetch_user] \<and>
    (case fetched (fst (auth_getUser api (auth_remote w))) of
       Some u \<Rightarrow> fst (getCurrentUser api w) = Some (currentUser_of u) \<and>
                 user_slot (snd (getCurrentUser api w)) = Some (currentUser_of u)
     | None \<Rightarrow> fst (getCurrentUser api w) = user_slot w \<and>
               user_slot (snd (getCurrentUser api w)) = user_slot w)) \<and>
   (case user_profiles w userId of
      Some localProfile \<Rightarrow> getUserProfile api userId w = (Inr localProfile, w)
    | None \<Rightarrow>
        auth_log (snd (getUserProfile api userId w)) = auth_log w @ [Fetch_profile userId] \<and>
        (case fetched (fst (select_profile api (auth_remote w) userId)) of
           Some p \<Rightarrow> fst (getUserProfile api userId w) = Inr p \<and>
                     user_profiles (snd (getUserProfile api userId w))
                       = (user_profiles w)(profile_id p \<mapsto> p)
         | None \<Rightarrow> isl (fst (getUserProfile api userId w)) \<and>
                   user_profiles (snd (getUserProfile api userId w)) = user_profiles w)) \<and>
   (case organizations w orgId of
      Some localOrg \<Rightarrow> getOrganization api orgId w = (Inr localOrg, w)
    | None \<Rightarrow>
        auth_log (snd (getOrganization api orgId w)) = auth_log w @ [Fetch_organization orgId] \<and>
        (case fetched (fst (select_organization api (auth_remote w) orgId)) of
           Some organization \<Rightarrow>
             fst (getOrganization api orgId w) = Inr organization \<and>
             organizations (snd (getOrganization api orgId w))
               = (organizations w)(org_id organization \<mapsto> organization)
         | None \<Rightarrow> isl (fst (getOrganization api orgId w)) \<and>
                   organizations (snd (getOrganization api orgId w)) = organizations w))"
  using getSession_remote_first [where api = api and w = w]
    getCurrentUser_remote_first [where api = api and w = w]
    getUserProfile_local_first [where api = api and w = w and userId = userId]
    getOrganization_local_first [where api = api and w = w and orgId = orgId]
  by blast

theorem auth_cache_reads_witness:
  "fetched (fst (auth_getSession ex_auth_api (auth_remote ex_auth_state)))
     = Some \<lparr>access_token = ''fresh'', expires_at = Some 2000\<rparr> \<and>
   fst (getSession ex_auth_api ex_auth_state)
     = Some \<lparr>access_token = ''fresh'', expires_at = Some 2000\<rparr> \<and>
   session_slot (snd (getSession ex_auth_api ex_auth_state))
     = Some \<lparr>access_token = ''fresh'', expires_at = Some 2000\<rparr> \<and>
   fst (getCurrentUser ex_auth_api ex_auth_state)
     = Some \<lparr>user_id = ''u1'', email = [], last_sign_in_at = None\<rparr> \<and>
   user_profiles ex_auth_state ''u1''
     = Some \<lparr>profile_id = ''u1'', organization_id = Some ''old-org''\<rparr> \<and>
   getUserProfile ex_auth_api ''u1'' ex_auth_state
     = (Inr \<lparr>profile_id = ''u1'', organization_id = Some ''old-org''\<rparr>, ex_auth_state) \<and>
   organizations ex_auth_state ''o2'' = None \<and>
   fst (getOrganization ex_auth_api ''o2'' ex_auth_state)
     = Inr \<lparr>org_id = ''o2'', org_name = ''renamed''\<rparr> \<and>
   organizations (snd (getOrganization ex_auth_api ''o2'' ex_auth_state)) ''o2''
     = Some \<lparr>org_id = ''o2'', org_name = ''renamed''\<rparr>"
proof -
  have f1: "fetched (fst (auth_getSession ex_auth_api (auth_remote ex_auth_state)))
              = Some \<lparr>access_token = ''fresh'', expires_at = Some 2000\<rparr>"
    by (simp add: fetched_def ex_auth_api_def)
  have f2: "fetched (fst (auth_getUser ex_auth_api (auth_remote ex_auth_state)))
              = Some \<lparr>ru_id = ''u1'', ru_email = None, ru_last_sign_in_at = Some []\<rparr>"
    by (simp add: fetched_def ex_auth_api_def)
  have f3: "user_profiles ex_auth_state ''u1''
              = Some \<lparr>profile_id = ''u1'', organization_id = Some ''old-org''\<rparr>"
    by (simp add: ex_auth_state_def)
  have f4: "organizations ex_auth_state ''o2'' = None"
    by (simp add: ex_auth_state_def)
  have f5: "fetched (fst (select_organization ex_auth_api (auth_remote ex_auth_state) ''o2''))
              = Some \<lparr>org_id = ''o2'', org_name = ''renamed''\<rparr>"
    by (simp add: fetched_def ex_auth_api_def)
  from auth_cache_reads [where api = ex_auth_api and w = ex_auth_state and userId = "''u1''"
      and orgId = "''o2''"] f1 f2 f3 f4 f5
  show ?thesis by (simp add: currentUser_of_def)
qed

text \<open>
  The claim as stated fails for profiles and organizations: with a profile and an
  organization in the local mirror, and a remote that would answer with newer data, both reads
  return the mirrored entry and leave the state, log of remote calls included, as it was.
\<close>

theorem profile_read_local_first_counterexample:
  "getUserProfile ex_auth_api ''u1'' ex_auth_state
     = (Inr \<lparr>profile_id = ''u1'', organization_id = Some ''old-org''\<rparr>, ex_auth_state) \<and>
   auth_log ex_auth_state = [] \<and>
   fetched (fst (select_profile ex_auth_api (auth_remote ex_auth_state) ''u1''))
     = Some \<lparr>profile_id = ''u1'', organization_id = Some ''new-org''\<rparr> \<and>
   getOrganization ex_auth_api ''o1'' ex_auth_state
     = (Inr \<lparr>org_id = ''o1'', org_name = ''original''\<rparr>, ex_auth_state) \<and>
   fetched (fst (select_organization ex_auth_api (auth_remote ex_auth_state) ''o1''))
     = Some \<lparr>org_id = ''o1'', org_name = ''renamed''\<rparr>"
  by (simp add: getUserProfile_def getOrganization_def storage_getUserProfile_def
      storage_getOrganization_def ex_auth_api_def ex_auth_state_def fetched_def)


end
